theory Spec2Isabelle
  imports Complex_Main "HOL-Library.Word"
begin

section \<open>GLSL values\<close>

text \<open>
  The fragment shader \<^verbatim>\<open>custom.frag.glsl\<close> computes on \<^verbatim>\<open>highp float\<close>. A float is
  read as the \<^typ>\<open>real\<close> it stands for. The shader is given twice: first its arithmetic
  operation by operation without rounding, then (in the section on rounding) the same
  operations with the result of each one rounded by the GPU. The first reading is the
  second on a GPU that does not round. A byte of the depth buffer is an \<^typ>\<open>8 word\<close>.
\<close>

type_synonym byte = "8 word"

datatype vec2 = Vec2 (x_of: real) (y_of: real)

datatype vec3 = Vec3 real real real

datatype vec4 = Vec4 (r_of: real) (g_of: real) (b_of: real) (a_of: real)

text \<open>A \<^verbatim>\<open>mat4\<close> is stored by columns, as GLSL and \<^verbatim>\<open>uniformMatrix4fv\<close> (transpose =
  false) have it.\<close>

datatype mat4 = Mat4 vec4 vec4 vec4 vec4

text \<open>The swizzles \<^verbatim>\<open>.ra\<close> and \<^verbatim>\<open>.xy\<close> of a \<^verbatim>\<open>vec4\<close>.\<close>

definition swizzle_ra :: "vec4 \<Rightarrow> vec2" where
  "swizzle_ra v = Vec2 (r_of v) (a_of v)"

definition swizzle_xy :: "vec4 \<Rightarrow> vec2" where
  "swizzle_xy v = Vec2 (r_of v) (g_of v)"

text \<open>The built-ins \<^verbatim>\<open>dot\<close> (on \<^verbatim>\<open>vec2\<close>), \<^verbatim>\<open>clamp\<close> (which GLSL defines as
  \<^verbatim>\<open>min(max(x, minVal), maxVal)\<close>) and the product of a \<^verbatim>\<open>mat4\<close> with a \<^verbatim>\<open>vec4\<close>.\<close>

definition dot :: "vec2 \<Rightarrow> vec2 \<Rightarrow> real" where
  "dot a b = x_of a * x_of b + y_of a * y_of b"

definition clamp :: "real \<Rightarrow> real \<Rightarrow> real \<Rightarrow> real" where
  "clamp v minVal maxVal = min (max v minVal) maxVal"

fun mat4_mul_vec4 :: "mat4 \<Rightarrow> vec4 \<Rightarrow> vec4" where
  "mat4_mul_vec4 (Mat4 (Vec4 a0 a1 a2 a3) (Vec4 b0 b1 b2 b3) (Vec4 c0 c1 c2 c3) (Vec4 d0 d1 d2 d3))
     (Vec4 x y z w) =
     Vec4 (a0 * x + b0 * y + c0 * z + d0 * w)
          (a1 * x + b1 * y + c1 * z + d1 * w)
          (a2 * x + b2 * y + c2 * z + d2 * w)
          (a3 * x + b3 * y + c3 * z + d3 * w)"

text \<open>A \<^verbatim>\<open>sampler2D\<close> is what \<^verbatim>\<open>texture\<close> reads through: a function from a texture
  coordinate to the sampled RGBA value. The filtering of the GPU is not part of the
  repository and stays inside this function.\<close>

type_synonym sampler2D = "vec2 \<Rightarrow> vec4"

definition texture :: "sampler2D \<Rightarrow> vec2 \<Rightarrow> vec4" where
  "texture s uv = s uv"

text \<open>
  The depth buffer is uploaded with \<^verbatim>\<open>texImage2D(..., LUMINANCE_ALPHA, ..., UNSIGNED_BYTE, data)\<close>:
  two bytes a pixel. WebGL expands such a texel to \<^verbatim>\<open>(L, L, L, A)\<close> with each byte
  divided by 255, so the first (low) byte is read back on \<^verbatim>\<open>.r\<close> and the second (high)
  byte on \<^verbatim>\<open>.a\<close>.
\<close>

definition luminanceAlphaTexel :: "byte \<Rightarrow> byte \<Rightarrow> vec4" where
  "luminanceAlphaTexel low high =
     Vec4 (real (unat low) / 255) (real (unat low) / 255) (real (unat low) / 255)
          (real (unat high) / 255)"

section \<open>The depth visualisation shader (custom.frag.glsl)\<close>

text \<open>The uniforms of the shader; the functions below take them as their first argument.\<close>

record uniforms =
  depthTexture :: sampler2D
  depthUVTransform :: mat4
  depthScale :: real
  resolution :: vec2

definition kMaxDepth :: real where
  "kMaxDepth = 8.0"

definition depthGetMeters :: "uniforms \<Rightarrow> sampler2D \<Rightarrow> vec2 \<Rightarrow> real" where
  "depthGetMeters U depth_texture depth_uv =
     (let packedDepthAndVisibility = swizzle_ra (texture depth_texture depth_uv)
      in dot packedDepthAndVisibility (Vec2 255.0 (256.0 * 255.0)) * depthScale U)"

definition normalizeFragCoords :: "uniforms \<Rightarrow> vec2 \<Rightarrow> vec2" where
  "normalizeFragCoords U fragCoords =
     Vec2 (x_of fragCoords / x_of (resolution U))
          (1.0 - y_of fragCoords / y_of (resolution U))"

definition mapRange :: "real \<Rightarrow> real \<Rightarrow> real \<Rightarrow> real \<Rightarrow> real \<Rightarrow> real" where
  "mapRange inputValue inputMin inputMax outputMin outputMax =
     outputMin + (inputValue - inputMin) * (outputMax - outputMin) / (inputMax - inputMin)"

text \<open>\<^verbatim>\<open>main\<close> writes the output variable \<^verbatim>\<open>color\<close>; the model returns it. Its argument
  is \<^verbatim>\<open>gl_FragCoord.xy\<close>.\<close>

definition main :: "uniforms \<Rightarrow> vec2 \<Rightarrow> vec4" where
  "main U gl_FragCoord_xy =
     (let n = normalizeFragCoords U gl_FragCoord_xy;
          depthTexCoord = swizzle_xy (mat4_mul_vec4 (depthUVTransform U) (Vec4 (x_of n) (y_of n) 0 1));
          depth = depthGetMeters U (depthTexture U) depthTexCoord;
          mappedValue = mapRange (clamp depth 0.0 kMaxDepth) 0.0 kMaxDepth 0.0 1.0
      in Vec4 mappedValue mappedValue mappedValue 1.0)"

section \<open>The WebXR frame, as the session hands it to the frame callback\<close>

text \<open>
  The TypeScript programs (\<^verbatim>\<open>webar-depth-occlusion/src/index.ts\<close> and its two siblings
  with hit testing only and with depth sensing only) read the platform through an
  \<^verbatim>\<open>XRFrame\<close>. The records below hold what each query of the source returns for that
  frame; a \<^verbatim>\<open>null\<close> result is \<^const>\<open>None\<close>. Numbers of JavaScript are read as reals,
  as the shader's floats are.
\<close>

datatype quat = Quat real real real real

datatype DOMPointReadOnly = DOMPointReadOnly (pt_x: real) (pt_y: real) (pt_z: real) (pt_w: real)

text \<open>An \<^verbatim>\<open>XRPose\<close>: the fields \<^verbatim>\<open>transform.position\<close> and \<^verbatim>\<open>transform.orientation\<close>.\<close>

record XRPose =
  transform_position :: DOMPointReadOnly
  transform_orientation :: DOMPointReadOnly

record XRViewport =
  vp_x :: int
  vp_y :: int
  vp_width :: int
  vp_height :: int

record XRDepthInformation =
  di_width :: nat
  di_height :: nat
  di_data :: "byte list"
  rawValueToMeters :: real
  normDepthBufferFromNormView :: mat4

text \<open>An \<^verbatim>\<open>XRView\<close>, together with what \<^verbatim>\<open>glLayer.getViewport(view)\<close> and
  \<^verbatim>\<open>frame.getDepthInformation(view)\<close> return for it.\<close>

record XRView =
  projectionMatrix :: mat4
  transform_inverse_matrix :: mat4
  viewport :: XRViewport
  depthInformation :: "XRDepthInformation option"

text \<open>
  \<^verbatim>\<open>viewerPose\<close> is the result of \<^verbatim>\<open>frame.getViewerPose(unboundedRefSpace)\<close>, given by
  its \<^verbatim>\<open>views\<close>. \<^verbatim>\<open>hitTestResults\<close> is the list \<^verbatim>\<open>frame.getHitTestResults(arHitTestSource)\<close>
  returns when it is asked, each entry given by what its \<^verbatim>\<open>getPose(unboundedRefSpace)\<close>
  returns.
\<close>

record XRFrame =
  viewerPose :: "XRView list option"
  hitTestResults :: "XRPose option list"

datatype XRHitTestSource = XRHitTestSource

text \<open>What \<^verbatim>\<open>navigator.xr\<close> offers: whether \<^verbatim>\<open>isSessionSupported('immersive-ar')\<close>
  resolves to true, and whether the session it creates has \<^verbatim>\<open>requestHitTestSource\<close>.\<close>

record XRSystem =
  isSessionSupported_immersive_ar :: bool
  has_requestHitTestSource :: bool

section \<open>Calls a frame makes\<close>

text \<open>
  Every call the callbacks make on the session, the frame, the GL context, the renderer
  and the placement indicator is one entry of a trace, in the order of the source.
  \<^verbatim>\<open>BindFramebuffer True\<close> binds \<^verbatim>\<open>glLayer.framebuffer\<close>, \<^verbatim>\<open>BindFramebuffer False\<close>
  binds \<^verbatim>\<open>null\<close>; likewise for \<^verbatim>\<open>BindTexture\<close> and the depth texture.
\<close>

datatype shader = CustomShader | RendererShader

datatype call =
    RequestAnimationFrame
  | GetViewerPose
  | GetHitTestResults
  | GetPose
  | SetPosition vec3
  | SetRotation quat
  | BindFramebuffer bool
  | ClearColor real real real real
  | Clear
  | GetScene
  | UseShader shader
  | GetViewport
  | SetViewPort int int int int
  | GetDepthInformation
  | ActiveTexture nat
  | BindTexture bool
  | TexImage2D nat nat "byte list"
  | UniformDepthTexture nat
  | UniformDepthUVTransform mat4
  | UniformDepthScale real
  | UniformResolution real real
  | DrawArrays nat nat
  | GetUniforms
  | UseLights
  | UniformProjection mat4
  | UniformView mat4
  | RenderSceneObject nat
  | UseProgramNull

section \<open>Scene objects and the program state\<close>

datatype GLModel = GLModel string

record GLSceneObject =
  so_model :: GLModel
  so_position :: vec3
  so_rotation :: quat
  so_scale :: vec3

text \<open>
  Scene objects are JavaScript objects, shared by reference between the scene of the
  renderer and the global \<^verbatim>\<open>reticleSceneObj\<close>. The state keeps them in a store; a
  reference is an index into it, and a new object takes the next index. The other
  fields are the globals \<^verbatim>\<open>model\<close>, \<^verbatim>\<open>reticleSceneObj\<close> and \<^verbatim>\<open>arHitTestSource\<close>, the
  scene of the renderer (references in insertion order), and whether the session holds
  the \<^verbatim>\<open>select\<close> listener.
\<close>

record state =
  store :: "GLSceneObject list"
  sceneObjects :: "nat list"
  model :: GLModel
  reticleSceneObj :: nat
  arHitTestSource :: "XRHitTestSource option"
  selectListener :: bool

text \<open>
  The two operations of the framework on rotations that the programs reach and whose
  arithmetic the repository's sources here do not show: the quaternion of a vector of
  Euler angles, and the rotation of a quaternion by such a vector. They are parameters
  of the model.
\<close>

record framework =
  quat_fromEuler :: "vec3 \<Rightarrow> quat"
  quat_rotate :: "vec3 \<Rightarrow> quat \<Rightarrow> quat"

text \<open>
  The classes \<^verbatim>\<open>GLSceneObject\<close> and \<^verbatim>\<open>GLRenderer\<close> come from \<^verbatim>\<open>./webgl-framework\<close>, which
  is not among the sources. The spec describes a scene object as a model reference with a
  local transform of position, rotation and scale, created on \<^verbatim>\<open>select\<close> by copying the pose
  of the placement indicator, whose own pose is overwritten on a hit.
\<close>

text \<open>Modelled from the spec: \<^verbatim>\<open>GLSceneObject.getPosition\<close>, missing with the framework;
  it reads the position component.\<close>

definition getPosition :: "nat \<Rightarrow> state \<Rightarrow> vec3" where
  "getPosition r s = so_position (store s ! r)"

text \<open>Modelled from the spec: \<^verbatim>\<open>GLSceneObject.getRotation\<close>, missing with the framework;
  it reads the rotation component.\<close>

definition getRotation :: "nat \<Rightarrow> state \<Rightarrow> quat" where
  "getRotation r s = so_rotation (store s ! r)"

text \<open>Modelled from the spec: \<^verbatim>\<open>GLSceneObject.setPosition\<close>, missing with the framework;
  it overwrites the position component of the object and nothing else.\<close>

definition setPosition :: "nat \<Rightarrow> vec3 \<Rightarrow> state \<Rightarrow> state" where
  "setPosition r p s = s\<lparr>store := (store s)[r := (store s ! r)\<lparr>so_position := p\<rparr>]\<rparr>"

text \<open>Modelled from the spec: \<^verbatim>\<open>GLSceneObject.setRotation\<close>, missing with the framework;
  it overwrites the rotation component of the object and nothing else.\<close>

definition setRotation :: "nat \<Rightarrow> quat \<Rightarrow> state \<Rightarrow> state" where
  "setRotation r q s = s\<lparr>store := (store s)[r := (store s ! r)\<lparr>so_rotation := q\<rparr>]\<rparr>"

text \<open>Modelled from the spec: \<^verbatim>\<open>GLSceneObject.rotate\<close>, missing with the framework; it
  turns the rotation component of the object by a vector of Euler angles and leaves the
  other components and the other objects alone.\<close>

definition rotate :: "framework \<Rightarrow> nat \<Rightarrow> vec3 \<Rightarrow> state \<Rightarrow> state" where
  "rotate fw r e s =
     s\<lparr>store := (store s)[r := (store s ! r)\<lparr>so_rotation := quat_rotate fw e (so_rotation (store s ! r))\<rparr>]\<rparr>"

text \<open>Modelled from the spec: \<^verbatim>\<open>GLRenderer.createModelSceneObjectFromQuats\<close>, missing with
  the framework. A scene object is created by copying the pose it is given: the result is
  a new reference, and the components of the new object are the values of the arguments.\<close>

definition createModelSceneObjectFromQuats ::
  "GLModel \<Rightarrow> vec3 \<Rightarrow> quat \<Rightarrow> vec3 \<Rightarrow> state \<Rightarrow> nat \<times> state" where
  "createModelSceneObjectFromQuats m p q sc s =
     (length (store s),
      s\<lparr>store := store s @ [\<lparr>so_model = m, so_position = p, so_rotation = q, so_scale = sc\<rparr>]\<rparr>)"

text \<open>Modelled from the spec: \<^verbatim>\<open>GLRenderer.createModelSceneObject\<close>, missing with the
  framework; the same constructor, with the rotation given as Euler angles.\<close>

definition createModelSceneObject ::
  "framework \<Rightarrow> GLModel \<Rightarrow> vec3 \<Rightarrow> vec3 \<Rightarrow> vec3 \<Rightarrow> state \<Rightarrow> nat \<times> state" where
  "createModelSceneObject fw m p e sc s =
     createModelSceneObjectFromQuats m p (quat_fromEuler fw e) sc s"

text \<open>Modelled from the spec: \<^verbatim>\<open>GLRenderer.addSceneObjectToScene\<close>, missing with the
  framework; the scene keeps its objects in insertion order.\<close>

definition addSceneObjectToScene :: "nat \<Rightarrow> state \<Rightarrow> state" where
  "addSceneObjectToScene r s = s\<lparr>sceneObjects := sceneObjects s @ [r]\<rparr>"

section \<open>Session setup (index.ts)\<close>

text \<open>
  \<^verbatim>\<open>main\<close> of \<^verbatim>\<open>webar-depth-occlusion/src/index.ts\<close> (the hit-test program has the same
  one): it loads the model and the reticle model, creates the reticle at the origin with
  Euler angles \<^verbatim>\<open>(0, 0, 0)\<close> and scale \<^verbatim>\<open>(1, 1, 1)\<close>, and adds it to the scene. The
  state after it is the state a session starts from.
\<close>

definition emptyState :: state where
  "emptyState =
     \<lparr>store = [], sceneObjects = [], model = GLModel [], reticleSceneObj = 0,
      arHitTestSource = None, selectListener = False\<rparr>"

definition main_index :: "framework \<Rightarrow> state" where
  "main_index fw =
     (let s0 = emptyState\<lparr>model := GLModel ''models/yoshikage_kira/scene.gltf''\<rparr>;
          reticle = GLModel ''models/reticle/reticle.gltf'';
          (r, s1) = createModelSceneObject fw reticle (Vec3 0 0 0) (Vec3 0 0 0) (Vec3 1 1 1) s0;
          s2 = s1\<lparr>reticleSceneObj := r\<rparr>
      in addSceneObjectToScene r s2)"

text \<open>\<^verbatim>\<open>isARSupported\<close>: false when \<^verbatim>\<open>navigator.xr\<close> is missing or the session mode is
  not supported.\<close>

definition isARSupported :: "XRSystem option \<Rightarrow> bool" where
  "isARSupported navigator_xr =
     (case navigator_xr of
        None \<Rightarrow> False
      | Some xr \<Rightarrow> if \<not> isSessionSupported_immersive_ar xr then False else True)"

text \<open>
  \<^verbatim>\<open>startARSession\<close>: returns at once without AR support; otherwise, when the session
  has \<^verbatim>\<open>requestHitTestSource\<close>, it stores the hit-test source and registers \<^verbatim>\<open>onSelect\<close>
  for \<^verbatim>\<open>select\<close>; then it requests the first animation frame.
\<close>

definition startARSession :: "XRSystem option \<Rightarrow> state \<Rightarrow> state \<times> call list" where
  "startARSession navigator_xr s =
     (if \<not> isARSupported navigator_xr then (s, [])
      else
        (let s1 = (if (case navigator_xr of None \<Rightarrow> False | Some xr \<Rightarrow> has_requestHitTestSource xr)
                   then s\<lparr>arHitTestSource := Some XRHitTestSource, selectListener := True\<rparr>
                   else s)
         in (s1, [RequestAnimationFrame])))"

section \<open>The select handler\<close>

text \<open>
  \<^verbatim>\<open>onSelect\<close> (the same text in index.ts and in the hit-test program): a new scene
  object of \<^verbatim>\<open>model\<close> from the position and rotation the reticle has now, with scale
  \<^verbatim>\<open>(0.5, 0.5, 0.5)\<close>; the new object is rotated by \<^verbatim>\<open>(-90, 0, 0)\<close> and added to the
  scene. The handler has no condition.
\<close>

definition onSelect :: "framework \<Rightarrow> state \<Rightarrow> state" where
  "onSelect fw s =
     (let (sceneObject, s1) =
            createModelSceneObjectFromQuats (model s)
              (getPosition (reticleSceneObj s) s)
              (getRotation (reticleSceneObj s) s)
              (Vec3 0.5 0.5 0.5) s;
          s2 = rotate fw sceneObject (Vec3 (- 90) 0 0) s1
      in addSceneObjectToScene sceneObject s2)"

section \<open>The frame callback\<close>

text \<open>
  The block "Check for hit results" of \<^verbatim>\<open>onDrawFrame\<close> (index.ts lines 182 to 210; the
  hit-test program has the same block): nothing without a hit-test source, nothing for an
  empty result list, nothing when the pose of the first result is null; otherwise the
  position and the orientation of that pose are written to the reticle.
\<close>

definition checkForHitResults :: "XRFrame \<Rightarrow> state \<Rightarrow> state \<times> call list" where
  "checkForHitResults frame s =
     (case arHitTestSource s of
        None \<Rightarrow> (s, [])
      | Some src \<Rightarrow>
          (let hitResults = hitTestResults frame
           in if length hitResults > 0 then
                (case hitResults ! 0 of
                   None \<Rightarrow> (s, [GetHitTestResults, GetPose])
                 | Some hitResultPose \<Rightarrow>
                     (let posX = pt_x (transform_position hitResultPose);
                          posY = pt_y (transform_position hitResultPose);
                          posZ = pt_z (transform_position hitResultPose);
                          rotX = pt_x (transform_orientation hitResultPose);
                          rotY = pt_y (transform_orientation hitResultPose);
                          rotZ = pt_z (transform_orientation hitResultPose);
                          rotW = pt_w (transform_orientation hitResultPose);
                          hitLocationPosition = Vec3 posX posY posZ;
                          hitLocationOrientation = Quat rotX rotY rotZ rotW
                      in (setRotation (reticleSceneObj s) hitLocationOrientation
                            (setPosition (reticleSceneObj s) hitLocationPosition s),
                          [GetHitTestResults, GetPose,
                           SetPosition hitLocationPosition,
                           SetRotation hitLocationOrientation])))
              else (s, [GetHitTestResults])))"

text \<open>The upload of the depth snapshot and the four uniforms of the depth shader, on
  texture unit \<^verbatim>\<open>unit\<close> (the body of \<^verbatim>\<open>if (depthInfo)\<close>).\<close>

definition depthSensing :: "nat \<Rightarrow> XRView \<Rightarrow> call list" where
  "depthSensing unit view =
     (case depthInformation view of
        None \<Rightarrow> []
      | Some depthInfo \<Rightarrow>
          [ActiveTexture unit, BindTexture True,
           TexImage2D (di_width depthInfo) (di_height depthInfo) (di_data depthInfo),
           UniformDepthTexture unit,
           UniformDepthUVTransform (normDepthBufferFromNormView depthInfo),
           UniformDepthScale (rawValueToMeters depthInfo),
           UniformResolution (real_of_int (vp_width (viewport view)))
                             (real_of_int (vp_height (viewport view)))])"

definition setViewPort :: "XRViewport \<Rightarrow> call" where
  "setViewPort vp = SetViewPort (vp_x vp) (vp_y vp) (vp_width vp) (vp_height vp)"

text \<open>The camera uniforms and the draw of every scene object, in the order of the scene.\<close>

definition renderScene :: "state \<Rightarrow> XRView \<Rightarrow> call list" where
  "renderScene s view =
     [GetUniforms, UseLights,
      UniformProjection (projectionMatrix view),
      UniformView (transform_inverse_matrix view)]
     @ map RenderSceneObject (sceneObjects s)"

text \<open>
  \<^verbatim>\<open>onDrawFrame\<close> of \<^verbatim>\<open>webar-depth-occlusion/src/index.ts\<close>. The loop over the views is a
  \<^const>\<open>map\<close>; an entry of \<^verbatim>\<open>views\<close> below its length is a view, so the \<^verbatim>\<open>continue\<close> on a
  missing view has no case here.
\<close>

definition onDrawFrame :: "XRFrame \<Rightarrow> state \<Rightarrow> state \<times> call list" where
  "onDrawFrame frame s =
     (case viewerPose frame of
        None \<Rightarrow> (s, [RequestAnimationFrame, GetViewerPose])
      | Some views \<Rightarrow>
          (let (s', hit) = checkForHitResults frame s
           in (s',
               [RequestAnimationFrame, GetViewerPose] @ hit
               @ [BindFramebuffer True, ClearColor 0 0 0 0, Clear, GetScene, UseShader CustomShader]
               @ concat (map (\<lambda>view. [GetViewport, setViewPort (viewport view), GetDepthInformation]
                                      @ depthSensing 1 view @ renderScene s' view) views)
               @ [UseProgramNull, BindFramebuffer False])))"

text \<open>\<^verbatim>\<open>onDrawFrame\<close> of the hit-test program: the same hit-test block, the shader of the
  renderer and no depth.\<close>

definition onDrawFrame_hitTest :: "XRFrame \<Rightarrow> state \<Rightarrow> state \<times> call list" where
  "onDrawFrame_hitTest frame s =
     (case viewerPose frame of
        None \<Rightarrow> (s, [RequestAnimationFrame, GetViewerPose])
      | Some views \<Rightarrow>
          (let (s', hit) = checkForHitResults frame s
           in (s',
               [RequestAnimationFrame, GetViewerPose] @ hit
               @ [BindFramebuffer True, ClearColor 0 0 0 0, Clear, GetScene, UseShader RendererShader]
               @ concat (map (\<lambda>view. [GetViewport, setViewPort (viewport view)]
                                      @ renderScene s' view) views)
               @ [UseProgramNull, BindFramebuffer False])))"

text \<open>\<^verbatim>\<open>onDrawFrame\<close> of the depth-sensing program, which draws the depth visualisation: it
  has no scene and no state of its own, and draws two triangles with the depth shader.\<close>

definition onDrawFrame_depth :: "XRFrame \<Rightarrow> call list" where
  "onDrawFrame_depth frame =
     (case viewerPose frame of
        None \<Rightarrow> [RequestAnimationFrame, GetViewerPose]
      | Some views \<Rightarrow>
          [RequestAnimationFrame, GetViewerPose]
          @ [BindFramebuffer True, ClearColor 0 0 0 0, Clear, UseShader CustomShader]
          @ concat (map (\<lambda>view. [GetViewport, setViewPort (viewport view), GetDepthInformation]
                                 @ depthSensing 0 view @ [DrawArrays 0 6]) views)
          @ [UseProgramNull, BindFramebuffer False])"

section \<open>Events of a session\<close>

text \<open>
  The session calls \<^verbatim>\<open>onSelect\<close> for a \<^verbatim>\<open>select\<close> event when the listener is registered,
  and \<^verbatim>\<open>onDrawFrame\<close> for a frame. Callbacks run one at a time.
\<close>

datatype event = Select | Frame XRFrame

fun dispatch :: "framework \<Rightarrow> event \<Rightarrow> state \<Rightarrow> state" where
  "dispatch fw Select s = (if selectListener s then onSelect fw s else s)"
| "dispatch fw (Frame frame) s = fst (onDrawFrame frame s)"

fun run :: "framework \<Rightarrow> event list \<Rightarrow> state \<Rightarrow> state" where
  "run fw [] s = s"
| "run fw (e # es) s = run fw es (dispatch fw e s)"

section \<open>What a draw call sees\<close>

text \<open>
  The uniforms of the depth shader keep their value from one GL call to the next. The
  depth texture is the one texture the programs upload to, so the sampler the shader reads
  is the sampling of the last uploaded image; how the GPU samples an image of a given
  width and height is the parameter \<^verbatim>\<open>smp\<close>.
\<close>

fun glUniform :: "(nat \<Rightarrow> nat \<Rightarrow> byte list \<Rightarrow> sampler2D) \<Rightarrow> call \<Rightarrow> uniforms \<Rightarrow> uniforms" where
  "glUniform smp (TexImage2D w h d) U = U\<lparr>depthTexture := smp w h d\<rparr>"
| "glUniform smp (UniformDepthUVTransform m) U = U\<lparr>depthUVTransform := m\<rparr>"
| "glUniform smp (UniformDepthScale k) U = U\<lparr>depthScale := k\<rparr>"
| "glUniform smp (UniformResolution w h) U = U\<lparr>resolution := Vec2 w h\<rparr>"
| "glUniform smp _ U = U"

text \<open>The uniforms in force at each \<^verbatim>\<open>drawArrays\<close> of a trace, in order.\<close>

fun drawn :: "(nat \<Rightarrow> nat \<Rightarrow> byte list \<Rightarrow> sampler2D) \<Rightarrow> call list \<Rightarrow> uniforms \<Rightarrow> uniforms list" where
  "drawn smp [] U = []"
| "drawn smp (DrawArrays first n # cs) U = U # drawn smp cs U"
| "drawn smp (c # cs) U = drawn smp cs (glUniform smp c U)"

section \<open>The shader with its rounding\<close>

text \<open>
  The functions of the shader above are its arithmetic without rounding. On the GPU every
  \<^verbatim>\<open>highp float\<close> operation rounds its result, and the texture unit turns a byte into a
  float in its own way. Both are kept as the two fields of a \<^verbatim>\<open>gpu\<close>: \<^verbatim>\<open>rnd\<close> rounds the
  exact result of one operation, \<^verbatim>\<open>unorm8\<close> is the float a fetch gives for a byte channel.
  The functions below are the shader again, operation by operation, with each result
  rounded.
\<close>

record gpu =
  rnd :: "real \<Rightarrow> real"
  unorm8 :: "byte \<Rightarrow> real"

definition fadd :: "gpu \<Rightarrow> real \<Rightarrow> real \<Rightarrow> real" where
  "fadd G a b = rnd G (a + b)"

definition fsub :: "gpu \<Rightarrow> real \<Rightarrow> real \<Rightarrow> real" where
  "fsub G a b = rnd G (a - b)"

definition fmul :: "gpu \<Rightarrow> real \<Rightarrow> real \<Rightarrow> real" where
  "fmul G a b = rnd G (a * b)"

definition fdiv :: "gpu \<Rightarrow> real \<Rightarrow> real \<Rightarrow> real" where
  "fdiv G a b = rnd G (a / b)"

text \<open>The texel of two bytes as the GPU hands it to the shader.\<close>

definition luminanceAlphaTexel_fl :: "gpu \<Rightarrow> byte \<Rightarrow> byte \<Rightarrow> vec4" where
  "luminanceAlphaTexel_fl G low high =
     Vec4 (unorm8 G low) (unorm8 G low) (unorm8 G low) (unorm8 G high)"

definition dot_fl :: "gpu \<Rightarrow> vec2 \<Rightarrow> vec2 \<Rightarrow> real" where
  "dot_fl G a b = fadd G (fmul G (x_of a) (x_of b)) (fmul G (y_of a) (y_of b))"

fun mat4_mul_vec4_fl :: "gpu \<Rightarrow> mat4 \<Rightarrow> vec4 \<Rightarrow> vec4" where
  "mat4_mul_vec4_fl G
     (Mat4 (Vec4 a0 a1 a2 a3) (Vec4 b0 b1 b2 b3) (Vec4 c0 c1 c2 c3) (Vec4 d0 d1 d2 d3))
     (Vec4 x y z w) =
     Vec4 (fadd G (fadd G (fadd G (fmul G a0 x) (fmul G b0 y)) (fmul G c0 z)) (fmul G d0 w))
          (fadd G (fadd G (fadd G (fmul G a1 x) (fmul G b1 y)) (fmul G c1 z)) (fmul G d1 w))
          (fadd G (fadd G (fadd G (fmul G a2 x) (fmul G b2 y)) (fmul G c2 z)) (fmul G d2 w))
          (fadd G (fadd G (fadd G (fmul G a3 x) (fmul G b3 y)) (fmul G c3 z)) (fmul G d3 w))"

text \<open>The constant expression \<^verbatim>\<open>256.0 * 255.0\<close> is the float 65280, whatever the rounding.\<close>

definition depthGetMeters_fl :: "gpu \<Rightarrow> uniforms \<Rightarrow> sampler2D \<Rightarrow> vec2 \<Rightarrow> real" where
  "depthGetMeters_fl G U depth_texture depth_uv =
     (let packedDepthAndVisibility = swizzle_ra (texture depth_texture depth_uv)
      in fmul G (dot_fl G packedDepthAndVisibility (Vec2 255.0 (256.0 * 255.0))) (depthScale U))"

definition normalizeFragCoords_fl :: "gpu \<Rightarrow> uniforms \<Rightarrow> vec2 \<Rightarrow> vec2" where
  "normalizeFragCoords_fl G U fragCoords =
     Vec2 (fdiv G (x_of fragCoords) (x_of (resolution U)))
          (fsub G 1.0 (fdiv G (y_of fragCoords) (y_of (resolution U))))"

definition mapRange_fl :: "gpu \<Rightarrow> real \<Rightarrow> real \<Rightarrow> real \<Rightarrow> real \<Rightarrow> real \<Rightarrow> real" where
  "mapRange_fl G inputValue inputMin inputMax outputMin outputMax =
     fadd G outputMin
       (fdiv G (fmul G (fsub G inputValue inputMin) (fsub G outputMax outputMin))
               (fsub G inputMax inputMin))"

definition main_fl :: "gpu \<Rightarrow> uniforms \<Rightarrow> vec2 \<Rightarrow> vec4" where
  "main_fl G U gl_FragCoord_xy =
     (let n = normalizeFragCoords_fl G U gl_FragCoord_xy;
          depthTexCoord =
            swizzle_xy (mat4_mul_vec4_fl G (depthUVTransform U) (Vec4 (x_of n) (y_of n) 0 1));
          depth = depthGetMeters_fl G U (depthTexture U) depthTexCoord;
          mappedValue = mapRange_fl G (clamp depth 0.0 kMaxDepth) 0.0 kMaxDepth 0.0 1.0
      in Vec4 mappedValue mappedValue mappedValue 1.0)"

text \<open>Arithmetic that does not round, with the byte divided by 255 as the texel: with it
  the rounded functions are the functions of the first reading.\<close>

definition exactArith :: gpu where
  "exactArith = \<lparr>rnd = (\<lambda>x. x), unorm8 = (\<lambda>b. real (unat b) / 255)\<rparr>"

subsection \<open>Binary32\<close>

text \<open>
  Rounding to the nearest float with a significand of 24 bits, ties to the even
  significand: \<^verbatim>\<open>fl32 x\<close> is the multiple of \<open>2 ^ (e - 23)\<close> nearest to \<open>x\<close>, where
  \<open>2 ^ e \<le> |x| < 2 ^ (e + 1)\<close>. This is IEEE 754 binary32 rounding for every result in
  the normal range; the exponent is not bounded here.
\<close>

definition roundEven :: "real \<Rightarrow> int" where
  "roundEven y =
     (let f = \<lfloor>y\<rfloor>
      in if y - of_int f < 1 / 2 then f
         else if 1 / 2 < y - of_int f then f + 1
         else if even f then f else f + 1)"

definition fl32 :: "real \<Rightarrow> real" where
  "fl32 x =
     (if x = 0 then 0
      else (let q = 2 powr (of_int (\<lfloor>log 2 \<bar>x\<bar>\<rfloor> - 23))
            in of_int (roundEven (x / q)) * q))"

text \<open>A GPU with binary32 arithmetic whose texture unit multiplies the byte by the float
  nearest to \<open>1 / 255\<close>.\<close>

definition gpu32 :: gpu where
  "gpu32 = \<lparr>rnd = fl32, unorm8 = (\<lambda>b. fl32 (real (unat b) * fl32 (1 / 255)))\<rparr>"

text \<open>
  What the statements on rounded results assume of a GPU: zero is not rounded away, one
  operation whose exact result lies between \<open>1 / 2\<close> and \<open>2 ^ 17\<close> has a relative error of at
  most \<open>\<delta>\<close>, and the float of a byte channel has a relative error of at most \<open>\<delta>t\<close> to the
  byte divided by 255.
\<close>

definition highp :: "real \<Rightarrow> real \<Rightarrow> gpu \<Rightarrow> bool" where
  "highp \<delta> \<delta>t G \<longleftrightarrow>
     0 \<le> \<delta> \<and> \<delta> \<le> 1 / 4 \<and> 0 \<le> \<delta>t \<and> \<delta>t \<le> 1 / 4 \<and> rnd G 0 = 0
     \<and> (\<forall>x. 1 / 2 \<le> x \<and> x \<le> 131072 \<longrightarrow> \<bar>rnd G x - x\<bar> \<le> \<delta> * x)
     \<and> (\<forall>b. \<bar>unorm8 G b - real (unat b) / 255\<bar> \<le> \<delta>t * (real (unat b) / 255))"

section \<open>Terms the statements use\<close>

text \<open>The grey value \<^verbatim>\<open>main\<close> computes from a depth in meters (the expression bound to
  \<^verbatim>\<open>mappedValue\<close>).\<close>

abbreviation mappedValue :: "real \<Rightarrow> real" where
  "mappedValue depth \<equiv> mapRange (clamp depth 0.0 kMaxDepth) 0.0 kMaxDepth 0.0 1.0"

text \<open>The vector and the quaternion \<^verbatim>\<open>onDrawFrame\<close> builds from a hit pose
  (\<^verbatim>\<open>hitLocationPosition\<close> and \<^verbatim>\<open>hitLocationOrientation\<close>).\<close>

abbreviation hitLocationPosition :: "XRPose \<Rightarrow> vec3" where
  "hitLocationPosition p \<equiv>
     Vec3 (pt_x (transform_position p)) (pt_y (transform_position p)) (pt_z (transform_position p))"

abbreviation hitLocationOrientation :: "XRPose \<Rightarrow> quat" where
  "hitLocationOrientation p \<equiv>
     Quat (pt_x (transform_orientation p)) (pt_y (transform_orientation p))
          (pt_z (transform_orientation p)) (pt_w (transform_orientation p))"

text \<open>The calls of a trace that write the pose of the reticle.\<close>

fun isPoseWrite :: "call \<Rightarrow> bool" where
  "isPoseWrite (SetPosition p) = True"
| "isPoseWrite (SetRotation q) = True"
| "isPoseWrite _ = False"

text \<open>The values \<^const>\<open>depthSensing\<close> gives the uniforms of the depth shader for a view and
  its depth snapshot.\<close>

definition snapshotUniforms ::
  "(nat \<Rightarrow> nat \<Rightarrow> byte list \<Rightarrow> sampler2D) \<Rightarrow> XRView \<Rightarrow> XRDepthInformation \<Rightarrow> uniforms" where
  "snapshotUniforms smp view di =
     \<lparr>depthTexture = smp (di_width di) (di_height di) (di_data di),
      depthUVTransform = normDepthBufferFromNormView di,
      depthScale = rawValueToMeters di,
      resolution = Vec2 (real_of_int (vp_width (viewport view)))
                        (real_of_int (vp_height (viewport view)))\<rparr>"

text \<open>Every reference the program holds, the reticle and the entries of the scene, is a
  reference to an object of the store.\<close>

definition storeInv :: "state \<Rightarrow> bool" where
  "storeInv s \<longleftrightarrow>
     reticleSceneObj s < length (store s) \<and> (\<forall>r \<in> set (sceneObjects s). r < length (store s))"

text \<open>The depth buffer has two bytes a pixel, the low byte first: the texel of pixel \<open>i\<close>
  of a buffer, without rounding and as a GPU hands it over.\<close>

definition pixelTexel :: "byte list \<Rightarrow> nat \<Rightarrow> vec4" where
  "pixelTexel d i = luminanceAlphaTexel (d ! (2 * i)) (d ! (2 * i + 1))"

definition pixelTexel_fl :: "gpu \<Rightarrow> byte list \<Rightarrow> nat \<Rightarrow> vec4" where
  "pixelTexel_fl G d i = luminanceAlphaTexel_fl G (d ! (2 * i)) (d ! (2 * i + 1))"

text \<open>The depth \<^verbatim>\<open>main\<close> decodes for a fragment (the value it binds to \<^verbatim>\<open>depth\<close>).\<close>

definition fragmentDepth :: "uniforms \<Rightarrow> vec2 \<Rightarrow> real" where
  "fragmentDepth U gl_FragCoord_xy =
     (let n = normalizeFragCoords U gl_FragCoord_xy;
          depthTexCoord = swizzle_xy (mat4_mul_vec4 (depthUVTransform U) (Vec4 (x_of n) (y_of n) 0 1))
      in depthGetMeters U (depthTexture U) depthTexCoord)"

section \<open>Example inputs\<close>

text \<open>
  Concrete inputs at which the theorems below are instantiated. The depth snapshot has one
  pixel with the bytes 208 and 7, the raw value \<open>7 * 256 + 208 = 2000\<close>, and a scale of a
  millimeter, so the pixel is 2 meters away; sampling a one-pixel image gives that pixel at
  every coordinate. The framework of the examples leaves a quaternion as it is; the
  theorems hold for every framework.
\<close>

definition mat4_create :: mat4 where
  "mat4_create = Mat4 (Vec4 1 0 0 0) (Vec4 0 1 0 0) (Vec4 0 0 1 0) (Vec4 0 0 0 1)"

definition exampleFramework :: framework where
  "exampleFramework = \<lparr>quat_fromEuler = (\<lambda>e. Quat 0 0 0 1), quat_rotate = (\<lambda>e q. q)\<rparr>"

definition exampleDepth :: XRDepthInformation where
  "exampleDepth =
     \<lparr>di_width = 1, di_height = 1, di_data = [208, 7], rawValueToMeters = 1 / 1000,
      normDepthBufferFromNormView = mat4_create\<rparr>"

definition exampleSampling :: "nat \<Rightarrow> nat \<Rightarrow> byte list \<Rightarrow> sampler2D" where
  "exampleSampling w h d uv = luminanceAlphaTexel (d ! 0) (d ! 1)"

definition exampleView :: XRView where
  "exampleView =
     \<lparr>projectionMatrix = mat4_create, transform_inverse_matrix = mat4_create,
      viewport = \<lparr>vp_x = 0, vp_y = 0, vp_width = 4, vp_height = 3\<rparr>,
      depthInformation = Some exampleDepth\<rparr>"

definition exampleUniforms :: uniforms where
  "exampleUniforms =
     \<lparr>depthTexture = (\<lambda>uv. luminanceAlphaTexel 0 1), depthUVTransform = mat4_create,
      depthScale = 1, resolution = Vec2 4 3\<rparr>"

definition exampleHitPose :: XRPose where
  "exampleHitPose =
     \<lparr>transform_position = DOMPointReadOnly 1 2 3 1,
      transform_orientation = DOMPointReadOnly 0 1 0 0\<rparr>"

definition frameWithHit :: XRFrame where
  "frameWithHit = \<lparr>viewerPose = Some [exampleView], hitTestResults = [Some exampleHitPose]\<rparr>"

definition frameWithoutHit :: XRFrame where
  "frameWithoutHit = \<lparr>viewerPose = Some [exampleView], hitTestResults = []\<rparr>"

definition frameWithUnresolvedHit :: XRFrame where
  "frameWithUnresolvedHit =
     \<lparr>viewerPose = Some [exampleView], hitTestResults = [None, Some exampleHitPose]\<rparr>"

definition frameWithoutPose :: XRFrame where
  "frameWithoutPose = \<lparr>viewerPose = None, hitTestResults = [Some exampleHitPose]\<rparr>"

text \<open>The state of a session that has just started on a device with hit testing: no
  frame and no event has been handled yet.\<close>

definition startedSession :: state where
  "startedSession =
     fst (startARSession
            (Some \<lparr>isSessionSupported_immersive_ar = True, has_requestHitTestSource = True\<rparr>)
            (main_index exampleFramework))"

text \<open>A second snapshot: one pixel with the bytes 0 and 1, the raw value 256, and a scale
  of \<open>1 / 128\<close>, so the pixel is 2 meters away; and the sampling of a one-pixel image by
  \<^const>\<open>gpu32\<close>.\<close>

definition binaryDepth :: XRDepthInformation where
  "binaryDepth =
     \<lparr>di_width = 1, di_height = 1, di_data = [0, 1], rawValueToMeters = 1 / 128,
      normDepthBufferFromNormView = mat4_create\<rparr>"

definition binaryView :: XRView where
  "binaryView =
     \<lparr>projectionMatrix = mat4_create, transform_inverse_matrix = mat4_create,
      viewport = \<lparr>vp_x = 0, vp_y = 0, vp_width = 4, vp_height = 3\<rparr>,
      depthInformation = Some binaryDepth\<rparr>"

definition binaryFrame :: XRFrame where
  "binaryFrame = \<lparr>viewerPose = Some [binaryView], hitTestResults = []\<rparr>"

definition gpu32Sampling :: "nat \<Rightarrow> nat \<Rightarrow> byte list \<Rightarrow> sampler2D" where
  "gpu32Sampling w h d uv = luminanceAlphaTexel_fl gpu32 (d ! 0) (d ! 1)"

section \<open>The depth decoder\<close>

lemma depthGetMeters_texel:
  "texture depth_texture depth_uv = luminanceAlphaTexel low high \<Longrightarrow>
   depthGetMeters U depth_texture depth_uv =
     real (unat low + unat high * 256) * depthScale U"
  by (simp add: depthGetMeters_def luminanceAlphaTexel_def swizzle_ra_def dot_def Let_def)

subsection \<open>Rounding\<close>

text \<open>Rounding to the nearest integer and to the nearest binary32 float, the error of the
  latter, and its value where the binade of the argument is known.\<close>

lemma roundEven_near: "\<bar>y - of_int n\<bar> < 1 / 2 \<Longrightarrow> roundEven y = n"
proof -
  assume a: "\<bar>y - of_int n\<bar> < 1 / 2"
  show ?thesis
  proof (cases "of_int n \<le> y")
    case True
    with a have "\<lfloor>y\<rfloor> = n" by (intro floor_unique) auto
    with a True show ?thesis by (simp add: roundEven_def Let_def)
  next
    case False
    with a have f: "\<lfloor>y\<rfloor> = n - 1" by (intro floor_unique) auto
    with a False show ?thesis by (auto simp add: roundEven_def Let_def)
  qed
qed

lemma roundEven_error: "\<bar>of_int (roundEven y) - y\<bar> \<le> 1 / 2"
  unfolding roundEven_def Let_def by (auto simp: abs_if) linarith+

lemma floor_log2: 
  assumes "p = 2 powr (of_int k)" "p \<le> x" "x < 2 * p"
  shows "\<lfloor>log 2 x\<rfloor> = k"
proof -
  have p: "0 < p" using assms(1) by simp
  then have x: "0 < x" using assms(2) by linarith
  have "log 2 p = of_int k" using assms(1) by simp
  moreover have "log 2 p \<le> log 2 x" using p assms(2) by simp
  moreover have "log 2 x < log 2 (2 * p)" using x assms(3) by simp
  moreover have "log 2 (2 * p) = 1 + log 2 p" using p by (simp add: log_mult)
  ultimately show ?thesis by (intro floor_unique) auto
qed

lemma fl32_at:
  assumes "p = 2 powr (of_int k)" "p \<le> x" "x < 2 * p"
    and "\<bar>x * 8388608 / p - of_int n\<bar> < 1 / 2"
  shows "fl32 x = of_int n * p / 8388608"
proof -
  have p: "0 < p" using assms(1) by simp
  then have x: "0 < x" using assms(2) by linarith
  have k: "\<lfloor>log 2 \<bar>x\<bar>\<rfloor> = k" using floor_log2[OF assms(1-3)] x by simp
  have q: "2 powr (of_int (k - 23)) = p / 8388608"
    using assms(1) by (simp add: powr_diff)
  have "x / (p / 8388608) = x * 8388608 / p" by simp
  then have r: "roundEven (x / (p / 8388608)) = n" using assms(4) by (simp add: roundEven_near)
  have "fl32 x = of_int (roundEven (x / 2 powr (of_int (k - 23)))) * 2 powr (of_int (k - 23))"
    using x unfolding fl32_def Let_def k by simp
  also have "\<dots> = of_int n * (p / 8388608)" unfolding q r ..
  finally show ?thesis by simp
qed

lemma fl32_value:
  assumes "p = 2 ^ m \<or> p = 1 / 2 ^ m" "p \<le> x" "x < 2 * p"
    and "\<bar>x * 8388608 / p - of_int n\<bar> < 1 / 2"
  shows "fl32 x = of_int n * p / 8388608"
proof -
  from assms(1) have "p = 2 powr (of_int (int m)) \<or> p = 2 powr (of_int (- int m))"
    by (auto simp add: powr_realpow powr_minus divide_inverse)
  then show ?thesis
    using fl32_at [OF _ assms(2-4)] by blast
qed

lemma fl32_rel_error:
  assumes "0 < x"
  shows "\<bar>fl32 x - x\<bar> \<le> x / 16777216"
proof -
  define k where "k = \<lfloor>log 2 x\<rfloor>"
  define q :: real where "q = 2 powr (of_int (k - 23))"
  have q: "0 < q" by (simp add: q_def)
  have "of_int k \<le> log 2 x" by (simp add: k_def)
  then have "2 powr (of_int k) \<le> 2 powr (log 2 x)" by (simp only: powr_le_cancel_iff) 
  then have pk: "2 powr (of_int k) \<le> x" using assms by simp
  have qk: "q = 2 powr (of_int k) / 8388608" by (simp add: q_def powr_diff)
  have f: "fl32 x = of_int (roundEven (x / q)) * q"
    using assms by (simp add: fl32_def Let_def q_def k_def)
  have "fl32 x - x = (of_int (roundEven (x / q)) - x / q) * q"
    using q by (simp add: f field_simps)
  then have "\<bar>fl32 x - x\<bar> = \<bar>of_int (roundEven (x / q)) - x / q\<bar> * q"
    using q by (simp add: abs_mult)
  also have "\<dots> \<le> (1 / 2) * q"
    using q roundEven_error [of "x / q"] by (intro mult_right_mono) auto
  also have "\<dots> = 2 powr (of_int k) / 16777216" by (simp add: qk)
  also have "\<dots> \<le> x / 16777216" using pk by simp
  finally show ?thesis .
qed

lemma highp_bounds:
  assumes "highp \<delta> \<delta>t G"
  shows "0 \<le> \<delta>" "\<delta> \<le> 1 / 4" "0 \<le> \<delta>t" "\<delta>t \<le> 1 / 4" "rnd G 0 = 0"
    and "\<And>x. 1 / 2 \<le> x \<Longrightarrow> x \<le> 131072 \<Longrightarrow> \<bar>rnd G x - x\<bar> \<le> \<delta> * x"
    and "\<And>b. \<bar>unorm8 G b - real (unat b) / 255\<bar> \<le> \<delta>t * (real (unat b) / 255)"
  using assms by (simp_all add: highp_def)

text \<open>One rounding of a value near \<open>n\<close>, where \<open>n\<close> is zero or at least one.\<close>

lemma rnd_near:
  assumes H: "highp \<delta> \<delta>t G"
    and n: "n = 0 \<or> 1 \<le> n" "n \<le> 65535"
    and lo: "n * c \<le> x" and hi: "x \<le> n * d"
    and c: "9 / 16 \<le> c" "c \<le> 1" and d: "1 \<le> d" "d \<le> 25 / 16"
  shows "n * c * (1 - \<delta>) \<le> rnd G x \<and> rnd G x \<le> n * d * (1 + \<delta>)"
proof (cases "n = 0")
  case True
  with lo hi have "x = 0" by simp
  with True highp_bounds(5)[OF H] show ?thesis by simp
next
  case False
  with n have n1: "1 \<le> n" by simp
  note b = highp_bounds[OF H]
  have "1 * (9 / 16) \<le> n * c" using n1 c by (intro mult_mono) auto
  with lo have x1: "1 / 2 \<le> x" by simp
  have "n * d \<le> 65535 * (25 / 16)" using n n1 d by (intro mult_mono) auto
  with hi have x2: "x \<le> 131072" by simp
  from b(6)[OF x1 x2] have e: "x - \<delta> * x \<le> rnd G x" "rnd G x \<le> x + \<delta> * x"
    by (simp_all add: abs_le_iff)
  have "n * c * (1 - \<delta>) \<le> x * (1 - \<delta>)" using lo b(2) by (intro mult_right_mono) auto
  moreover have "x * (1 + \<delta>) \<le> n * d * (1 + \<delta>)" using hi b(1) by (intro mult_right_mono) auto
  ultimately show ?thesis using e by (simp add: algebra_simps)
qed

lemma channel_near:
  assumes H: "highp \<delta> \<delta>t G" and K: "0 < K"
  shows "real (unat b) * K / 255 * (1 - \<delta>t) \<le> unorm8 G b * K
     \<and> unorm8 G b * K \<le> real (unat b) * K / 255 * (1 + \<delta>t)"
proof -
  define m where "m = real (unat b) / 255"
  have "\<bar>unorm8 G b - m\<bar> \<le> \<delta>t * m"
    unfolding m_def by (rule highp_bounds(7)[OF H])
  then have "m - \<delta>t * m \<le> unorm8 G b" "unorm8 G b \<le> m + \<delta>t * m"
    by linarith+
  then have "(m - \<delta>t * m) * K \<le> unorm8 G b * K" "unorm8 G b * K \<le> (m + \<delta>t * m) * K"
    using K by (simp_all only: mult_le_cancel_right_pos)
  then show ?thesis by (simp add: m_def algebra_simps)
qed

lemma byte_le_255: "real (unat (b :: byte)) \<le> 255"
proof -
  have "unat b < 2 ^ LENGTH(8)" by (rule unsigned_less)
  then have "unat b \<le> 255" by simp
  then have "real (unat b) \<le> real 255" by (rule of_nat_mono)
  then show ?thesis by simp
qed

lemma nat_zero_or_one: "real (n :: nat) = 0 \<or> 1 \<le> real n"
  by (cases n) simp_all

lemma dot_fl_near:
  assumes H: "highp \<delta> \<delta>t G"
    and t: "texture depth_texture depth_uv = luminanceAlphaTexel_fl G low high"
  shows "(real (unat low) + real (unat high) * 256) * ((1 - \<delta>t) * (1 - \<delta>) * (1 - \<delta>))
           \<le> dot_fl G (swizzle_ra (texture depth_texture depth_uv)) (Vec2 255.0 (256.0 * 255.0))
       \<and> dot_fl G (swizzle_ra (texture depth_texture depth_uv)) (Vec2 255.0 (256.0 * 255.0))
           \<le> (real (unat low) + real (unat high) * 256) * ((1 + \<delta>t) * (1 + \<delta>) * (1 + \<delta>))"
proof -
  note b = highp_bounds[OF H]
  define l where "l = real (unat low)"
  define h where "h = real (unat high) * 256"
  define P1 where "P1 = rnd G (unorm8 G low * 255)"
  define P2 where "P2 = rnd G (unorm8 G high * 65280)"
  have dt: "9 / 16 \<le> 1 - \<delta>t" "1 - \<delta>t \<le> 1" "1 \<le> 1 + \<delta>t" "1 + \<delta>t \<le> 25 / 16"
    using b(3,4) by simp_all
  have l: "l = 0 \<or> 1 \<le> l" "l \<le> 65535"
    using nat_zero_or_one [of "unat low"] byte_le_255 [of low] by (simp_all add: l_def)
  have h: "h = 0 \<or> 1 \<le> h" "h \<le> 65535"
    using nat_zero_or_one [of "unat high"] byte_le_255 [of high] by (auto simp add: h_def)
  have c1: "l * (1 - \<delta>t) \<le> unorm8 G low * 255" "unorm8 G low * 255 \<le> l * (1 + \<delta>t)"
    using channel_near [OF H, of 255 low] by (simp_all add: l_def)
  have c2: "h * (1 - \<delta>t) \<le> unorm8 G high * 65280" "unorm8 G high * 65280 \<le> h * (1 + \<delta>t)"
    using channel_near [OF H, of 65280 high] by (simp_all add: h_def)
  have p1: "l * (1 - \<delta>t) * (1 - \<delta>) \<le> P1" "P1 \<le> l * (1 + \<delta>t) * (1 + \<delta>)"
    using rnd_near [OF H l c1 dt] by (simp_all add: P1_def)
  have p2: "h * (1 - \<delta>t) * (1 - \<delta>) \<le> P2" "P2 \<le> h * (1 + \<delta>t) * (1 + \<delta>)"
    using rnd_near [OF H h c2 dt] by (simp_all add: P2_def)
  have v: "l + h = 0 \<or> 1 \<le> l + h" using l(1) h(1) by auto
  have v2: "l + h \<le> 65535"
    using byte_le_255 [of low] byte_le_255 [of high] by (simp add: l_def h_def)
  have cc: "9 / 16 \<le> (1 - \<delta>t) * (1 - \<delta>)" "(1 - \<delta>t) * (1 - \<delta>) \<le> 1"
    "1 \<le> (1 + \<delta>t) * (1 + \<delta>)" "(1 + \<delta>t) * (1 + \<delta>) \<le> 25 / 16"
  proof -
    have "(3 / 4) * (3 / 4) \<le> (1 - \<delta>t) * (1 - \<delta>)" using b(1-4) by (intro mult_mono) auto
    then show "9 / 16 \<le> (1 - \<delta>t) * (1 - \<delta>)" by simp
    have "(1 - \<delta>t) * (1 - \<delta>) \<le> 1 * 1" using b(1-4) by (intro mult_mono) auto
    then show "(1 - \<delta>t) * (1 - \<delta>) \<le> 1" by simp
    have "1 * 1 \<le> (1 + \<delta>t) * (1 + \<delta>)" using b(1-4) by (intro mult_mono) auto
    then show "1 \<le> (1 + \<delta>t) * (1 + \<delta>)" by simp
    have "(1 + \<delta>t) * (1 + \<delta>) \<le> (5 / 4) * (5 / 4)" using b(1-4) by (intro mult_mono) auto
    then show "(1 + \<delta>t) * (1 + \<delta>) \<le> 25 / 16" by simp
  qed
  have s: "(l + h) * ((1 - \<delta>t) * (1 - \<delta>)) \<le> P1 + P2" "P1 + P2 \<le> (l + h) * ((1 + \<delta>t) * (1 + \<delta>))"
    using p1 p2 by (simp_all add: algebra_simps)
  have "(l + h) * ((1 - \<delta>t) * (1 - \<delta>)) * (1 - \<delta>) \<le> rnd G (P1 + P2)
      \<and> rnd G (P1 + P2) \<le> (l + h) * ((1 + \<delta>t) * (1 + \<delta>)) * (1 + \<delta>)"
    by (rule rnd_near [OF H v v2 s cc])
  moreover have "dot_fl G (swizzle_ra (texture depth_texture depth_uv)) (Vec2 255.0 (256.0 * 255.0))
      = rnd G (P1 + P2)"
    by (simp add: t dot_fl_def fadd_def fmul_def swizzle_ra_def luminanceAlphaTexel_fl_def
        P1_def P2_def)
  ultimately show ?thesis by (simp add: l_def h_def mult.assoc)
qed

lemma fl32_recip255: "fl32 (1 / 255) = 8421505 / 2147483648"
  using fl32_value [where m = 8 and p = "1 / 256" and x = "1 / 255" and n = 8421505]
  by simp

lemma fl32_unorm_1: "fl32 (8421505 / 2147483648) = 8421505 / 2147483648"
  using fl32_value [where m = 8 and p = "1 / 256" and x = "8421505 / 2147483648" and n = 8421505]
  by simp

lemma fl32_unorm_7: "fl32 (58950535 / 2147483648) = 7368817 / 268435456"
  using fl32_value [where m = 6 and p = "1 / 64" and x = "58950535 / 2147483648" and n = 14737634]
  by simp

lemma fl32_unorm_208: "fl32 (109479565 / 134217728) = 6842473 / 8388608"
  using fl32_value [where m = 1 and p = "1 / 2" and x = "109479565 / 134217728" and n = 13684946]
  by simp

lemma fl32_unorm_255: "fl32 (2147483775 / 2147483648) = 1"
  using fl32_value [where m = 0 and p = "1" and x = "2147483775 / 2147483648" and n = 8388608]
  by simp

lemma fl32_low208: "fl32 (1744830615 / 8388608) = 13631489 / 65536"
  using fl32_value [where m = 7 and p = "128" and x = "1744830615 / 8388608" and n = 13631489]
  by simp

lemma fl32_high7: "fl32 (1879048335 / 1048576) = 14680065 / 8192"
  using fl32_value [where m = 10 and p = "1024" and x = "1879048335 / 1048576" and n = 14680065]
  by simp

lemma fl32_sum_208_7: "fl32 (131072009 / 65536) = 16384001 / 8192"
  using fl32_value [where m = 10 and p = "1024" and x = "131072009 / 65536" and n = 16384001]
  by simp

lemma fl32_result_208_7: "fl32 (16384001 / 8192) = 16384001 / 8192"
  using fl32_value [where m = 10 and p = "1024" and x = "16384001 / 8192" and n = 16384001]
  by simp

lemma fl32_high1: "fl32 (2147483775 / 8388608) = 256"
  using fl32_value [where m = 8 and p = "256" and x = "2147483775 / 8388608" and n = 8388608]
  by simp

lemma fl32_1: "fl32 (1) = 1"
  using fl32_value [where m = 0 and p = "1" and x = "1" and n = 8388608]
  by simp

lemma fl32_2: "fl32 (2) = 2"
  using fl32_value [where m = 1 and p = "2" and x = "2" and n = 8388608]
  by simp

lemma fl32_8: "fl32 (8) = 8"
  using fl32_value [where m = 3 and p = "8" and x = "8" and n = 8388608]
  by simp

lemma fl32_255: "fl32 (255) = 255"
  using fl32_value [where m = 7 and p = "128" and x = "255" and n = 16711680]
  by simp

lemma fl32_256: "fl32 (256) = 256"
  using fl32_value [where m = 8 and p = "256" and x = "256" and n = 8388608]
  by simp

lemma fl32_65280: "fl32 (65280) = 65280"
  using fl32_value [where m = 15 and p = "32768" and x = "65280" and n = 16711680]
  by simp

lemma fl32_1_over_4: "fl32 (1 / 4) = 1 / 4"
  using fl32_value [where m = 2 and p = "1 / 4" and x = "1 / 4" and n = 8388608]
  by simp

lemma fl32_0: "fl32 0 = 0"
  by (simp add: fl32_def)

lemma gpu32_unorm8:
  "unorm8 gpu32 0 = 0" "unorm8 gpu32 1 = 8421505 / 2147483648"
  "unorm8 gpu32 7 = 7368817 / 268435456" "unorm8 gpu32 208 = 6842473 / 8388608"
  "unorm8 gpu32 255 = 1"
  by (simp_all add: gpu32_def fl32_recip255 fl32_0 fl32_unorm_1 fl32_unorm_7 fl32_unorm_208
      fl32_unorm_255)

lemma highp_gpu32: "highp (1 / 16777216) (1 / 4194304) gpu32"
proof -
  have r: "\<bar>fl32 x - x\<bar> \<le> 1 / 16777216 * x" if "1 / 2 \<le> x" for x
    using fl32_rel_error [of x] that by simp
  have u: "\<bar>fl32 (real (unat b) * fl32 (1 / 255)) - real (unat b) / 255\<bar>
      \<le> 1 / 4194304 * (real (unat b) / 255)" for b :: byte
  proof (cases "unat b = 0")
    case True
    then show ?thesis by (simp add: fl32_0)
  next
    case False
    define m where "m = real (unat b)"
    from False have "0 < unat b" by simp
    then have m: "0 < m" unfolding m_def by (simp only: of_nat_0_less_iff)
    define x where "x = m * (8421505 / 2147483648)"
    have x: "0 < x" using m by (simp add: x_def)
    have "\<bar>fl32 x - x\<bar> \<le> x / 16777216" by (rule fl32_rel_error [OF x])
    moreover have "x / 16777216 + \<bar>x - m / 255\<bar> \<le> 1 / 4194304 * (m / 255)"
      using m by (simp add: x_def abs_if field_simps)
    ultimately have "\<bar>fl32 x - m / 255\<bar> \<le> 1 / 4194304 * (m / 255)" by linarith
    then show ?thesis by (simp add: x_def m_def fl32_recip255)
  qed
  have "rnd gpu32 = fl32" "unorm8 gpu32 = (\<lambda>b. fl32 (real (unat b) * fl32 (1 / 255)))"
    by (simp_all add: gpu32_def)
  then show ?thesis
    unfolding highp_def using r u fl32_0 by auto
qed

lemma highp_exactArith: "highp 0 0 exactArith"
  by (simp add: highp_def exactArith_def)

lemma mat4_mul_vec4_exactArith: "mat4_mul_vec4_fl exactArith m v = mat4_mul_vec4 m v"
proof (cases m)
  case (Mat4 a b c d)
  then show ?thesis
    by (cases a; cases b; cases c; cases d; cases v)
       (simp add: fadd_def fmul_def exactArith_def)
qed

lemma shader_exactArith:
  "luminanceAlphaTexel_fl exactArith low high = luminanceAlphaTexel low high"
  "depthGetMeters_fl exactArith U t uv = depthGetMeters U t uv"
  "normalizeFragCoords_fl exactArith U fc = normalizeFragCoords U fc"
  "mapRange_fl exactArith v a b c d = mapRange v a b c d"
  by (simp_all add: luminanceAlphaTexel_fl_def luminanceAlphaTexel_def depthGetMeters_fl_def
      depthGetMeters_def dot_fl_def dot_def normalizeFragCoords_fl_def normalizeFragCoords_def
      mapRange_fl_def mapRange_def fadd_def fsub_def fmul_def fdiv_def exactArith_def Let_def)

lemma main_exactArith: "main_fl exactArith U fc = main U fc"
  by (simp add: main_fl_def main_def shader_exactArith mat4_mul_vec4_exactArith)

subsection \<open>What the decoder returns\<close>

lemma depthGetMeters_fl_dot:
  "depthGetMeters_fl G U depth_texture depth_uv =
     rnd G (dot_fl G (swizzle_ra (texture depth_texture depth_uv)) (Vec2 255.0 (256.0 * 255.0))
            * depthScale U)"
  by (simp add: depthGetMeters_fl_def fmul_def Let_def)

lemma highp_unorm8_0: "highp \<delta> \<delta>t G \<Longrightarrow> unorm8 G 0 = 0"
  using highp_bounds(7) [of \<delta> \<delta>t G 0] by simp

text \<open>
  C1 (as amended). \<^const>\<open>depthGetMeters_fl\<close> returns the rounded product of the scale with
  the rounded dot product \<open>D\<close> of the sampled channels with \<open>(255, 256 * 255)\<close>. On a GPU
  whose operations have a relative error of at most \<open>\<delta>\<close> and whose byte channels have a
  relative error of at most \<open>\<delta>t\<close>, for a sample that is the texel of the bytes \<open>low\<close> and
  \<open>high\<close>, \<open>D\<close> lies between \<open>(low + high * 256) * (1 - \<delta>t) * (1 - \<delta>)\<^sup>2\<close> and
  \<open>(low + high * 256) * (1 + \<delta>t) * (1 + \<delta>)\<^sup>2\<close>: the depth is \<open>(low + high * 256) * depthScale\<close>
  up to rounding, and \<open>D\<close> is exactly \<open>low + high * 256\<close> where nothing rounds. The bytes \<open>(0, 0)\<close> decode to 0.
  Where the byte 255 samples as 1.0 and the floats 255 and 65280 are not rounded,
  \<open>(255, 0)\<close> decodes to the float product \<open>255 * depthScale\<close> and \<open>(0, 255)\<close> to
  \<open>256 * 255 * depthScale\<close>. For the bytes \<open>(0, 1)\<close> the value \<open>D\<close> is near 256, at most 500, and
  not \<open>256 * 255\<close>.
\<close>

theorem depthGetMeters_decodes_bytes:
  assumes "highp \<delta> \<delta>t G"
    and "texture depth_texture depth_uv = luminanceAlphaTexel_fl G low high"
  shows "depthGetMeters_fl G U depth_texture depth_uv =
           rnd G (dot_fl G (swizzle_ra (texture depth_texture depth_uv))
                    (Vec2 255.0 (256.0 * 255.0)) * depthScale U)
     \<and> (real (unat low) + real (unat high) * 256) * ((1 - \<delta>t) * (1 - \<delta>) * (1 - \<delta>))
           \<le> dot_fl G (swizzle_ra (texture depth_texture depth_uv)) (Vec2 255.0 (256.0 * 255.0))
     \<and> dot_fl G (swizzle_ra (texture depth_texture depth_uv)) (Vec2 255.0 (256.0 * 255.0))
           \<le> (real (unat low) + real (unat high) * 256) * ((1 + \<delta>t) * (1 + \<delta>) * (1 + \<delta>))
     \<and> (\<delta> = 0 \<and> \<delta>t = 0 \<longrightarrow>
          dot_fl G (swizzle_ra (texture depth_texture depth_uv)) (Vec2 255.0 (256.0 * 255.0))
            = real (unat low) + real (unat high) * 256)
     \<and> (low = 0 \<and> high = 0 \<longrightarrow> depthGetMeters_fl G U depth_texture depth_uv = 0)
     \<and> (low = 255 \<and> high = 0 \<and> unorm8 G 255 = 1 \<and> rnd G 255 = 255 \<longrightarrow>
          depthGetMeters_fl G U depth_texture depth_uv = rnd G (255 * depthScale U))
     \<and> (low = 0 \<and> high = 255 \<and> unorm8 G 255 = 1 \<and> rnd G 65280 = 65280 \<longrightarrow>
          depthGetMeters_fl G U depth_texture depth_uv = rnd G (256 * 255 * depthScale U))
     \<and> (low = 0 \<and> high = 1 \<longrightarrow>
          108 \<le> dot_fl G (swizzle_ra (texture depth_texture depth_uv)) (Vec2 255.0 (256.0 * 255.0))
          \<and> dot_fl G (swizzle_ra (texture depth_texture depth_uv)) (Vec2 255.0 (256.0 * 255.0))
              \<le> 500)"
proof -
  note b = highp_bounds [OF assms(1)]
  note z = highp_unorm8_0 [OF assms(1)]
  let ?D = "dot_fl G (swizzle_ra (texture depth_texture depth_uv)) (Vec2 255.0 (256.0 * 255.0))"
  have near: "(real (unat low) + real (unat high) * 256) * ((1 - \<delta>t) * (1 - \<delta>) * (1 - \<delta>)) \<le> ?D"
    "?D \<le> (real (unat low) + real (unat high) * 256) * ((1 + \<delta>t) * (1 + \<delta>) * (1 + \<delta>))"
    using dot_fl_near [OF assms] by simp_all
  have ex: "\<delta> = 0 \<and> \<delta>t = 0 \<longrightarrow> ?D = real (unat low) + real (unat high) * 256"
    using near by auto
  have c0: "low = 0 \<and> high = 0 \<longrightarrow> depthGetMeters_fl G U depth_texture depth_uv = 0"
    by (simp add: depthGetMeters_fl_def dot_fl_def fadd_def fmul_def swizzle_ra_def
        luminanceAlphaTexel_fl_def assms(2) z b(5) Let_def)
  have c1: "low = 255 \<and> high = 0 \<and> unorm8 G 255 = 1 \<and> rnd G 255 = 255 \<longrightarrow>
      depthGetMeters_fl G U depth_texture depth_uv = rnd G (255 * depthScale U)"
    by (simp add: depthGetMeters_fl_def dot_fl_def fadd_def fmul_def swizzle_ra_def
        luminanceAlphaTexel_fl_def assms(2) z b(5) Let_def)
  have c2: "low = 0 \<and> high = 255 \<and> unorm8 G 255 = 1 \<and> rnd G 65280 = 65280 \<longrightarrow>
      depthGetMeters_fl G U depth_texture depth_uv = rnd G (256 * 255 * depthScale U)"
    by (simp add: depthGetMeters_fl_def dot_fl_def fadd_def fmul_def swizzle_ra_def
        luminanceAlphaTexel_fl_def assms(2) z b(5) Let_def)
  have lo: "27 / 64 \<le> (1 - \<delta>t) * (1 - \<delta>) * (1 - \<delta>)"
  proof -
    have "(3 / 4) * (3 / 4) * (3 / 4) \<le> (1 - \<delta>t) * (1 - \<delta>) * (1 - \<delta>)"
      using b(1-4) by (intro mult_mono) auto
    then show ?thesis by simp
  qed
  have hi: "(1 + \<delta>t) * (1 + \<delta>) * (1 + \<delta>) \<le> 125 / 64"
  proof -
    have "(1 + \<delta>t) * (1 + \<delta>) * (1 + \<delta>) \<le> (5 / 4) * (5 / 4) * (5 / 4)"
      using b(1-4) by (intro mult_mono) auto
    then show ?thesis by simp
  qed
  have c3: "low = 0 \<and> high = 1 \<longrightarrow> 108 \<le> ?D \<and> ?D \<le> 500"
  proof
    assume lh: "low = 0 \<and> high = 1"
    define A where "A = (1 - \<delta>t) * (1 - \<delta>) * (1 - \<delta>)"
    define B where "B = (1 + \<delta>t) * (1 + \<delta>) * (1 + \<delta>)"
    have "256 * A \<le> ?D" "?D \<le> 256 * B"
      using near lh unfolding A_def B_def by simp_all
    moreover have "27 / 64 \<le> A" "B \<le> 125 / 64"
      using lo hi unfolding A_def B_def by simp_all
    ultimately show "108 \<le> ?D \<and> ?D \<le> 500" by linarith
  qed
  from depthGetMeters_fl_dot near ex c0 c1 c2 c3 show ?thesis by blast
qed

text \<open>The theorem on \<^const>\<open>gpu32\<close>, where the bytes \<open>(208, 7)\<close>, the raw value 2000, decode
  with a scale of 1 to \<open>2000 + 1 / 8192\<close>: the last place is lost to rounding.\<close>

lemma texture_gpu32_constant:
  "texture (\<lambda>uv. luminanceAlphaTexel_fl gpu32 low high) uv = luminanceAlphaTexel_fl gpu32 low high"
  by (simp add: texture_def)

lemma depthGetMeters_gpu32:
  "depthGetMeters_fl gpu32 U (\<lambda>uv. luminanceAlphaTexel_fl gpu32 low high) uv =
     fl32 (fl32 (fl32 (unorm8 gpu32 low * 255) + fl32 (unorm8 gpu32 high * 65280)) * depthScale U)"
  by (simp add: depthGetMeters_fl_def dot_fl_def fadd_def fmul_def swizzle_ra_def texture_def
      luminanceAlphaTexel_fl_def gpu32_def Let_def)

lemma decode_gpu32_208_7:
  "depthGetMeters_fl gpu32 exampleUniforms (\<lambda>uv. luminanceAlphaTexel_fl gpu32 208 7) uv
     = 16384001 / 8192"
  by (simp add: depthGetMeters_gpu32 gpu32_unorm8 exampleUniforms_def fl32_low208 fl32_high7
      fl32_sum_208_7 fl32_result_208_7)

lemma decode_gpu32_0_1:
  "depthGetMeters_fl gpu32 exampleUniforms (\<lambda>uv. luminanceAlphaTexel_fl gpu32 0 1) uv = 256"
  by (simp add: depthGetMeters_gpu32 gpu32_unorm8 exampleUniforms_def fl32_0 fl32_high1 fl32_256)

theorem depthGetMeters_decodes_bytes_witness:
  "highp (1 / 16777216) (1 / 4194304) gpu32
   \<and> texture (\<lambda>uv. luminanceAlphaTexel_fl gpu32 208 7) (Vec2 0 0) = luminanceAlphaTexel_fl gpu32 208 7
   \<and> (real (unat (208 :: byte)) + real (unat (7 :: byte)) * 256)
        * ((1 - 1 / 4194304) * (1 - 1 / 16777216) * (1 - 1 / 16777216))
       \<le> dot_fl gpu32 (swizzle_ra (texture (\<lambda>uv. luminanceAlphaTexel_fl gpu32 208 7) (Vec2 0 0)))
            (Vec2 255.0 (256.0 * 255.0))
   \<and> dot_fl gpu32 (swizzle_ra (texture (\<lambda>uv. luminanceAlphaTexel_fl gpu32 208 7) (Vec2 0 0)))
            (Vec2 255.0 (256.0 * 255.0))
       \<le> (real (unat (208 :: byte)) + real (unat (7 :: byte)) * 256)
        * ((1 + 1 / 4194304) * (1 + 1 / 16777216) * (1 + 1 / 16777216))
   \<and> depthGetMeters_fl gpu32 exampleUniforms (\<lambda>uv. luminanceAlphaTexel_fl gpu32 208 7) (Vec2 0 0)
       = 2000 + 1 / 8192
   \<and> depthGetMeters_fl gpu32 exampleUniforms (\<lambda>uv. luminanceAlphaTexel_fl gpu32 0 0) (Vec2 0 0) = 0
   \<and> unorm8 gpu32 255 = 1 \<and> rnd gpu32 255 = 255 \<and> rnd gpu32 65280 = 65280
   \<and> depthGetMeters_fl gpu32 exampleUniforms (\<lambda>uv. luminanceAlphaTexel_fl gpu32 255 0) (Vec2 0 0)
       = rnd gpu32 (255 * depthScale exampleUniforms)
   \<and> depthGetMeters_fl gpu32 exampleUniforms (\<lambda>uv. luminanceAlphaTexel_fl gpu32 0 255) (Vec2 0 0)
       = rnd gpu32 (256 * 255 * depthScale exampleUniforms)
   \<and> dot_fl gpu32 (swizzle_ra (texture (\<lambda>uv. luminanceAlphaTexel_fl gpu32 0 1) (Vec2 0 0)))
            (Vec2 255.0 (256.0 * 255.0)) \<le> 500
   \<and> highp 0 0 exactArith
   \<and> dot_fl exactArith
         (swizzle_ra (texture (\<lambda>uv. luminanceAlphaTexel_fl exactArith 208 7) (Vec2 0 0)))
         (Vec2 255.0 (256.0 * 255.0)) = 2000"
proof -
  note h = highp_gpu32
  have g: "unorm8 gpu32 255 = 1" "rnd gpu32 255 = 255" "rnd gpu32 65280 = 65280"
    by (simp_all add: gpu32_unorm8) (simp_all add: gpu32_def fl32_255 fl32_65280)
  have e: "depthGetMeters_fl gpu32 exampleUniforms (\<lambda>uv. luminanceAlphaTexel_fl gpu32 208 7) (Vec2 0 0)
       = 2000 + 1 / 8192"
    by (simp add: decode_gpu32_208_7)
  have t: "texture (\<lambda>uv. luminanceAlphaTexel_fl gpu32 l k) (Vec2 0 0) = luminanceAlphaTexel_fl gpu32 l k"
    for l k by (rule texture_gpu32_constant)
  note w = depthGetMeters_decodes_bytes [OF h t, where U = exampleUniforms]
  have a: "(real (unat (208 :: byte)) + real (unat (7 :: byte)) * 256)
        * ((1 - 1 / 4194304) * (1 - 1 / 16777216) * (1 - 1 / 16777216))
       \<le> dot_fl gpu32 (swizzle_ra (texture (\<lambda>uv. luminanceAlphaTexel_fl gpu32 208 7) (Vec2 0 0)))
            (Vec2 255.0 (256.0 * 255.0))"
    and b: "dot_fl gpu32 (swizzle_ra (texture (\<lambda>uv. luminanceAlphaTexel_fl gpu32 208 7) (Vec2 0 0)))
            (Vec2 255.0 (256.0 * 255.0))
       \<le> (real (unat (208 :: byte)) + real (unat (7 :: byte)) * 256)
        * ((1 + 1 / 4194304) * (1 + 1 / 16777216) * (1 + 1 / 16777216))"
    using w [of 208 7] by (rule conjunct2 [THEN conjunct1], rule conjunct2 [THEN conjunct2, THEN conjunct1])
  have c0: "depthGetMeters_fl gpu32 exampleUniforms (\<lambda>uv. luminanceAlphaTexel_fl gpu32 0 0) (Vec2 0 0) = 0"
    using w [of 0 0] by blast
  have c1: "depthGetMeters_fl gpu32 exampleUniforms (\<lambda>uv. luminanceAlphaTexel_fl gpu32 255 0) (Vec2 0 0)
       = rnd gpu32 (255 * depthScale exampleUniforms)"
    using w [of 255 0] g by blast
  have c2: "depthGetMeters_fl gpu32 exampleUniforms (\<lambda>uv. luminanceAlphaTexel_fl gpu32 0 255) (Vec2 0 0)
       = rnd gpu32 (256 * 255 * depthScale exampleUniforms)"
    using w [of 0 255] g by blast
  have c3: "dot_fl gpu32 (swizzle_ra (texture (\<lambda>uv. luminanceAlphaTexel_fl gpu32 0 1) (Vec2 0 0)))
            (Vec2 255.0 (256.0 * 255.0)) \<le> 500"
    using w [of 0 1] by blast
  have "dot_fl exactArith
         (swizzle_ra (texture (\<lambda>uv. luminanceAlphaTexel_fl exactArith 208 7) (Vec2 0 0)))
         (Vec2 255.0 (256.0 * 255.0)) = real (unat (208 :: byte)) + real (unat (7 :: byte)) * 256"
    using depthGetMeters_decodes_bytes
            [OF highp_exactArith, where low = 208 and high = 7 and depth_uv = "Vec2 0 0"
               and depth_texture = "\<lambda>uv. luminanceAlphaTexel_fl exactArith 208 7"]
    by (simp add: texture_def)
  then have x: "dot_fl exactArith
         (swizzle_ra (texture (\<lambda>uv. luminanceAlphaTexel_fl exactArith 208 7) (Vec2 0 0)))
         (Vec2 255.0 (256.0 * 255.0)) = 2000"
    by simp
  from h t [of 208 7] a b e c0 g c1 c2 c3 highp_exactArith x show ?thesis
    by (intro conjI)
qed

text \<open>
  C1 as stated fails at the bytes \<open>(low = 0, high = 1)\<close>: with a scale of 1 they decode to
  256 meters, which is \<open>(low + high * 256) * scale\<close> and not \<open>256 * 255 * scale\<close>, without
  rounding and on \<^const>\<open>gpu32\<close> alike. Reading the pairs of the claim as sampled channel
  values does not help: then \<open>(255, 0)\<close> decodes to \<open>255 * 255 * scale\<close> and not to
  \<open>255 * scale\<close>.
\<close>

theorem depthGetMeters_low0_high1_counterexample:
  "texture (depthTexture exampleUniforms) (Vec2 0 0) = luminanceAlphaTexel 0 1 \<and>
   depthGetMeters exampleUniforms (depthTexture exampleUniforms) (Vec2 0 0) = 256 \<and>
   depthGetMeters exampleUniforms (depthTexture exampleUniforms) (Vec2 0 0)
     \<noteq> 256 * 255 * depthScale exampleUniforms \<and>
   depthGetMeters exampleUniforms (\<lambda>uv. Vec4 255 255 255 0) (Vec2 0 0) = 255 * 255 \<and>
   depthGetMeters exampleUniforms (\<lambda>uv. Vec4 255 255 255 0) (Vec2 0 0)
     \<noteq> 255 * depthScale exampleUniforms \<and>
   depthGetMeters_fl gpu32 exampleUniforms (\<lambda>uv. luminanceAlphaTexel_fl gpu32 0 1) (Vec2 0 0) = 256 \<and>
   depthGetMeters_fl gpu32 exampleUniforms (\<lambda>uv. luminanceAlphaTexel_fl gpu32 0 1) (Vec2 0 0)
     \<noteq> 256 * 255 * depthScale exampleUniforms"
proof -
  have "depthGetMeters_fl gpu32 exampleUniforms (\<lambda>uv. luminanceAlphaTexel_fl gpu32 0 1) (Vec2 0 0) = 256"
    by (rule decode_gpu32_0_1)
  moreover have "depthScale exampleUniforms = 1"
    by (simp add: exampleUniforms_def)
  ultimately show ?thesis
    by (simp add: depthGetMeters_def texture_def exampleUniforms_def luminanceAlphaTexel_def
      swizzle_ra_def dot_def Let_def)
qed

text \<open>
  C9. The decoder is monotonic in the 16-bit value: for two samples that are the texels of
  the bytes \<open>(low1, high1)\<close> and \<open>(low2, high2)\<close> and a scale that is not negative,
  \<open>low1 + high1 * 256 \<le> low2 + high2 * 256\<close> implies that the first depth is at most the
  second.
\<close>

theorem depthGetMeters_monotone:
  assumes "texture t1 uv1 = luminanceAlphaTexel low1 high1"
    and "texture t2 uv2 = luminanceAlphaTexel low2 high2"
    and "0 \<le> depthScale U"
    and "unat low1 + unat high1 * 256 \<le> unat low2 + unat high2 * 256"
  shows "depthGetMeters U t1 uv1 \<le> depthGetMeters U t2 uv2"
proof -
  have d1: "depthGetMeters U t1 uv1 = real (unat low1 + unat high1 * 256) * depthScale U"
    using assms(1) by (rule depthGetMeters_texel)
  have d2: "depthGetMeters U t2 uv2 = real (unat low2 + unat high2 * 256) * depthScale U"
    using assms(2) by (rule depthGetMeters_texel)
  from assms(4) have "real (unat low1 + unat high1 * 256) \<le> real (unat low2 + unat high2 * 256)"
    by (simp only: of_nat_le_iff)
  then show ?thesis
    unfolding d1 d2 using assms(3) by (rule mult_right_mono)
qed

theorem depthGetMeters_monotone_witness:
  "texture (\<lambda>uv. luminanceAlphaTexel 255 0) (Vec2 0 0) = luminanceAlphaTexel 255 0 \<and>
   texture (\<lambda>uv. luminanceAlphaTexel 0 1) (Vec2 0 0) = luminanceAlphaTexel 0 1 \<and>
   0 \<le> depthScale exampleUniforms \<and>
   unat (255 :: byte) + unat (0 :: byte) * 256 \<le> unat (0 :: byte) + unat (1 :: byte) * 256 \<and>
   depthGetMeters exampleUniforms (\<lambda>uv. luminanceAlphaTexel 255 0) (Vec2 0 0)
     \<le> depthGetMeters exampleUniforms (\<lambda>uv. luminanceAlphaTexel 0 1) (Vec2 0 0)"
proof -
  have h1: "texture (\<lambda>uv. luminanceAlphaTexel 255 0) (Vec2 0 0) = luminanceAlphaTexel 255 0"
    and h2: "texture (\<lambda>uv. luminanceAlphaTexel 0 1) (Vec2 0 0) = luminanceAlphaTexel 0 1"
    by (simp_all add: texture_def)
  have h3: "0 \<le> depthScale exampleUniforms"
    by (simp add: exampleUniforms_def)
  have h4: "unat (255 :: byte) + unat (0 :: byte) * 256 \<le> unat (0 :: byte) + unat (1 :: byte) * 256"
    by simp
  from depthGetMeters_monotone [OF h1 h2 h3 h4] h1 h2 h3 h4 show ?thesis
    by blast
qed

section \<open>The coordinate transform\<close>

text \<open>
  C2. With a resolution of \<open>width\<close> by \<open>height\<close>, both positive,
  \<^const>\<open>normalizeFragCoords\<close> maps a coordinate \<open>(x, y)\<close> of \<open>[0, width] \<times> [0, height]\<close> to
  \<open>(x / width, 1 - y / height)\<close>, whose components lie in \<open>[0, 1]\<close>; \<open>(0, 0)\<close> goes to
  \<open>(0, 1)\<close>, \<open>(width, 0)\<close> to \<open>(1, 1)\<close> and \<open>(0, height)\<close> to \<open>(0, 0)\<close>, exactly.
\<close>

theorem normalizeFragCoords_uv:
  assumes "resolution U = Vec2 width height" and "0 < width" and "0 < height"
    and "0 \<le> x" and "x \<le> width" and "0 \<le> y" and "y \<le> height"
  shows "normalizeFragCoords U (Vec2 x y) = Vec2 (x / width) (1 - y / height)
     \<and> 0 \<le> x_of (normalizeFragCoords U (Vec2 x y)) \<and> x_of (normalizeFragCoords U (Vec2 x y)) \<le> 1
     \<and> 0 \<le> y_of (normalizeFragCoords U (Vec2 x y)) \<and> y_of (normalizeFragCoords U (Vec2 x y)) \<le> 1
     \<and> normalizeFragCoords U (Vec2 0 0) = Vec2 0 1
     \<and> normalizeFragCoords U (Vec2 width 0) = Vec2 1 1
     \<and> normalizeFragCoords U (Vec2 0 height) = Vec2 0 0"
  using assms by (simp add: normalizeFragCoords_def)

theorem normalizeFragCoords_uv_witness:
  "resolution exampleUniforms = Vec2 4 3 \<and> (0::real) < 4 \<and> (0::real) < 3 \<and>
   (0::real) \<le> 1 \<and> (1::real) \<le> 4 \<and> (0::real) \<le> 3 \<and> (3::real) \<le> 3 \<and>
   normalizeFragCoords exampleUniforms (Vec2 1 3) = Vec2 (1 / 4) (1 - 3 / 3) \<and>
   normalizeFragCoords exampleUniforms (Vec2 4 0) = Vec2 1 1"
proof -
  have h: "resolution exampleUniforms = Vec2 4 3"
    by (simp add: exampleUniforms_def)
  from normalizeFragCoords_uv [OF h, of 1 3] h show ?thesis
    by simp
qed

section \<open>Depth to grey\<close>

lemma main_fragmentDepth:
  "main U fragCoord =
     Vec4 (mappedValue (fragmentDepth U fragCoord)) (mappedValue (fragmentDepth U fragCoord))
          (mappedValue (fragmentDepth U fragCoord)) 1"
  by (simp add: main_def fragmentDepth_def Let_def)

lemma mappedValue_cases:
  "0 \<le> mappedValue d" "mappedValue d \<le> 1" "8 < d \<Longrightarrow> mappedValue d = 1"
  "d < 0 \<Longrightarrow> mappedValue d = 0" "0 \<le> d \<Longrightarrow> d \<le> 8 \<Longrightarrow> mappedValue d = d / 8"
  by (simp_all add: mapRange_def clamp_def kMaxDepth_def)

text \<open>
  C3. The colour \<^const>\<open>main\<close> writes for a fragment has the grey value of the depth it
  decodes there in its three colour channels, and alpha 1: it is white for a depth above 8
  meters, black for a depth below 0, and \<open>depth / 8\<close> for a depth in \<open>[0, 8]\<close>. The grey value
  of any depth lies in \<open>[0, 1]\<close>; on \<open>[0, 8]\<close> the depth is 8 times the grey value, so the
  mapping is injective on that interval.
\<close>

theorem depth_to_grey:
  "main U fragCoord =
     Vec4 (mappedValue (fragmentDepth U fragCoord)) (mappedValue (fragmentDepth U fragCoord))
          (mappedValue (fragmentDepth U fragCoord)) 1
   \<and> (8 < fragmentDepth U fragCoord \<longrightarrow> main U fragCoord = Vec4 1 1 1 1)
   \<and> (fragmentDepth U fragCoord < 0 \<longrightarrow> main U fragCoord = Vec4 0 0 0 1)
   \<and> (0 \<le> fragmentDepth U fragCoord \<and> fragmentDepth U fragCoord \<le> 8 \<longrightarrow>
        main U fragCoord =
          Vec4 (fragmentDepth U fragCoord / 8) (fragmentDepth U fragCoord / 8)
               (fragmentDepth U fragCoord / 8) 1)
   \<and> 0 \<le> mappedValue d \<and> mappedValue d \<le> 1
   \<and> (8 < d \<longrightarrow> mappedValue d = 1)
   \<and> (d < 0 \<longrightarrow> mappedValue d = 0)
   \<and> (0 \<le> d \<and> d \<le> 8 \<longrightarrow> mappedValue d = d / 8 \<and> 8 * mappedValue d = d)
   \<and> inj_on mappedValue {0..8}"
proof -
  have inj: "inj_on mappedValue {0..8}"
  proof (rule inj_onI)
    fix a b :: real
    assume a: "a \<in> {0..8}" and b: "b \<in> {0..8}" and eq: "mappedValue a = mappedValue b"
    from a have ma: "mappedValue a = a / 8" by (intro mappedValue_cases) simp_all
    from b have mb: "mappedValue b = b / 8" by (intro mappedValue_cases) simp_all
    from eq show "a = b" unfolding ma mb by simp
  qed
  have m: "main U fragCoord = Vec4 1 1 1 1" if "8 < fragmentDepth U fragCoord"
    unfolding main_fragmentDepth mappedValue_cases(3) [OF that] ..
  have n: "main U fragCoord = Vec4 0 0 0 1" if "fragmentDepth U fragCoord < 0"
    unfolding main_fragmentDepth mappedValue_cases(4) [OF that] ..
  have l: "main U fragCoord =
      Vec4 (fragmentDepth U fragCoord / 8) (fragmentDepth U fragCoord / 8)
           (fragmentDepth U fragCoord / 8) 1"
    if "0 \<le> fragmentDepth U fragCoord" "fragmentDepth U fragCoord \<le> 8"
    unfolding main_fragmentDepth mappedValue_cases(5) [OF that] ..
  have v: "0 \<le> mappedValue d \<and> mappedValue d \<le> 1
     \<and> (8 < d \<longrightarrow> mappedValue d = 1) \<and> (d < 0 \<longrightarrow> mappedValue d = 0)
     \<and> (0 \<le> d \<and> d \<le> 8 \<longrightarrow> mappedValue d = d / 8 \<and> 8 * mappedValue d = d)"
    by (simp add: mapRange_def clamp_def kMaxDepth_def)
  from main_fragmentDepth m n l v inj show ?thesis by blast
qed

lemma fragmentDepth_constant:
  "depthTexture U = (\<lambda>uv. luminanceAlphaTexel low high) \<Longrightarrow>
   fragmentDepth U fragCoord = real (unat low + unat high * 256) * depthScale U"
  by (simp add: fragmentDepth_def Let_def depthGetMeters_texel texture_def)

theorem depth_to_grey_witness:
  "(8::real) < 9 \<and> mappedValue 9 = 1 \<and> (- 1 :: real) < 0 \<and> mappedValue (- 1) = 0 \<and>
   (0::real) \<le> 2 \<and> (2::real) \<le> 8 \<and> mappedValue 2 = 2 / 8 \<and>
   8 < fragmentDepth exampleUniforms (Vec2 0.5 0.5) \<and>
   main exampleUniforms (Vec2 0.5 0.5) = Vec4 1 1 1 1 \<and>
   fragmentDepth (exampleUniforms\<lparr>depthScale := - 1\<rparr>) (Vec2 0.5 0.5) < 0 \<and>
   main (exampleUniforms\<lparr>depthScale := - 1\<rparr>) (Vec2 0.5 0.5) = Vec4 0 0 0 1 \<and>
   0 \<le> fragmentDepth (exampleUniforms\<lparr>depthScale := 1 / 128\<rparr>) (Vec2 0.5 0.5) \<and>
   fragmentDepth (exampleUniforms\<lparr>depthScale := 1 / 128\<rparr>) (Vec2 0.5 0.5) \<le> 8 \<and>
   main (exampleUniforms\<lparr>depthScale := 1 / 128\<rparr>) (Vec2 0.5 0.5) = Vec4 (1 / 4) (1 / 4) (1 / 4) 1"
proof -
  have t: "depthTexture (exampleUniforms\<lparr>depthScale := k\<rparr>) = (\<lambda>uv. luminanceAlphaTexel 0 1)"
    "depthTexture exampleUniforms = (\<lambda>uv. luminanceAlphaTexel 0 1)" for k
    by (simp_all add: exampleUniforms_def)
  have s: "depthScale exampleUniforms = 1" "depthScale (exampleUniforms\<lparr>depthScale := k\<rparr>) = k"
    for k by (simp_all add: exampleUniforms_def)
  have d: "fragmentDepth exampleUniforms (Vec2 0.5 0.5) = 256"
    "fragmentDepth (exampleUniforms\<lparr>depthScale := - 1\<rparr>) (Vec2 0.5 0.5) = - 256"
    "fragmentDepth (exampleUniforms\<lparr>depthScale := 1 / 128\<rparr>) (Vec2 0.5 0.5) = 2"
    unfolding fragmentDepth_constant [OF t(1)] fragmentDepth_constant [OF t(2)] s
    by simp_all
  have r: "8 < fragmentDepth exampleUniforms (Vec2 0.5 0.5)"
    "fragmentDepth (exampleUniforms\<lparr>depthScale := - 1\<rparr>) (Vec2 0.5 0.5) < 0"
    "0 \<le> fragmentDepth (exampleUniforms\<lparr>depthScale := 1 / 128\<rparr>) (Vec2 0.5 0.5)"
    "fragmentDepth (exampleUniforms\<lparr>depthScale := 1 / 128\<rparr>) (Vec2 0.5 0.5) \<le> 8"
    unfolding d by simp_all
  have a: "main exampleUniforms (Vec2 0.5 0.5) = Vec4 1 1 1 1"
    using depth_to_grey [of exampleUniforms "Vec2 0.5 0.5" 9] r(1) by blast
  have b: "main (exampleUniforms\<lparr>depthScale := - 1\<rparr>) (Vec2 0.5 0.5) = Vec4 0 0 0 1"
    using depth_to_grey [of "exampleUniforms\<lparr>depthScale := - 1\<rparr>" "Vec2 0.5 0.5" "- 1"] r(2)
    by blast
  have "main (exampleUniforms\<lparr>depthScale := 1 / 128\<rparr>) (Vec2 0.5 0.5) =
      Vec4 (fragmentDepth (exampleUniforms\<lparr>depthScale := 1 / 128\<rparr>) (Vec2 0.5 0.5) / 8)
           (fragmentDepth (exampleUniforms\<lparr>depthScale := 1 / 128\<rparr>) (Vec2 0.5 0.5) / 8)
           (fragmentDepth (exampleUniforms\<lparr>depthScale := 1 / 128\<rparr>) (Vec2 0.5 0.5) / 8) 1"
    using depth_to_grey [of "exampleUniforms\<lparr>depthScale := 1 / 128\<rparr>" "Vec2 0.5 0.5" 2] r(3,4)
    by blast
  then have c: "main (exampleUniforms\<lparr>depthScale := 1 / 128\<rparr>) (Vec2 0.5 0.5)
      = Vec4 (1 / 4) (1 / 4) (1 / 4) 1"
    unfolding d by simp
  have m: "mappedValue 9 = 1" "mappedValue (- 1) = 0" "mappedValue 2 = 2 / 8"
    using depth_to_grey [of exampleUniforms "Vec2 0.5 0.5" 9]
      depth_to_grey [of exampleUniforms "Vec2 0.5 0.5" "- 1"]
      depth_to_grey [of exampleUniforms "Vec2 0.5 0.5" 2]
    by simp_all
  from m r a b c show ?thesis by simp
qed

section \<open>The placement indicator\<close>

lemma isPoseWrite_renderScene: "filter isPoseWrite (renderScene s v) = []"
  by (simp add: renderScene_def filter_empty_conv image_iff)

lemma isPoseWrite_depthSensing: "filter isPoseWrite (depthSensing u v) = []"
  by (simp add: depthSensing_def split: option.splits)

lemma isPoseWrite_setViewPort: "isPoseWrite (setViewPort vp) = False"
  by (simp add: setViewPort_def)

lemma filter_concat_map_Nil:
  "(\<And>x. x \<in> set xs \<Longrightarrow> filter P (f x) = []) \<Longrightarrow> filter P (concat (map f xs)) = []"
  by (induction xs) auto

lemma checkForHitResults_resolved:
  assumes "arHitTestSource s = Some src" and "hitTestResults frame = Some p # rest"
  shows "checkForHitResults frame s =
     (setRotation (reticleSceneObj s) (hitLocationOrientation p)
        (setPosition (reticleSceneObj s) (hitLocationPosition p) s),
      [GetHitTestResults, GetPose,
       SetPosition (hitLocationPosition p), SetRotation (hitLocationOrientation p)])"
  using assms by (simp add: checkForHitResults_def Let_def)

lemma checkForHitResults_unchanged:
  assumes "hitTestResults frame = [] \<or> (\<exists>rest. hitTestResults frame = None # rest)"
  shows "fst (checkForHitResults frame s) = s"
    and "filter isPoseWrite (snd (checkForHitResults frame s)) = []"
  using assms by (auto simp add: checkForHitResults_def Let_def split: option.splits)

lemma onDrawFrame_state:
  "fst (onDrawFrame frame s) =
     (case viewerPose frame of None \<Rightarrow> s | Some views \<Rightarrow> fst (checkForHitResults frame s))"
  by (simp add: onDrawFrame_def split: option.splits prod.splits)

lemma onDrawFrame_pose_writes:
  "filter isPoseWrite (snd (onDrawFrame frame s)) =
     (case viewerPose frame of
        None \<Rightarrow> []
      | Some views \<Rightarrow> filter isPoseWrite (snd (checkForHitResults frame s)))"
  by (simp add: onDrawFrame_def filter_concat_map_Nil isPoseWrite_renderScene
      isPoseWrite_depthSensing isPoseWrite_setViewPort split: option.splits prod.splits)

lemma onDrawFrame_hitTest_state:
  "fst (onDrawFrame_hitTest frame s) =
     (case viewerPose frame of None \<Rightarrow> s | Some views \<Rightarrow> fst (checkForHitResults frame s))"
  by (simp add: onDrawFrame_hitTest_def split: option.splits prod.splits)

lemma onDrawFrame_hitTest_pose_writes:
  "filter isPoseWrite (snd (onDrawFrame_hitTest frame s)) =
     (case viewerPose frame of
        None \<Rightarrow> []
      | Some views \<Rightarrow> filter isPoseWrite (snd (checkForHitResults frame s)))"
  by (simp add: onDrawFrame_hitTest_def filter_concat_map_Nil isPoseWrite_renderScene
      isPoseWrite_setViewPort split: option.splits prod.splits)

lemma get_after_set:
  assumes "r < length (store s)"
  shows "getPosition r (setRotation r q (setPosition r p s)) = p"
    and "getRotation r (setRotation r q (setPosition r p s)) = q"
  using assms by (simp_all add: getPosition_def getRotation_def setPosition_def setRotation_def)

lemma main_index_state:
  "main_index fw =
     \<lparr>store = [\<lparr>so_model = GLModel ''models/reticle/reticle.gltf'', so_position = Vec3 0 0 0,
                so_rotation = quat_fromEuler fw (Vec3 0 0 0), so_scale = Vec3 1 1 1\<rparr>],
      sceneObjects = [0], model = GLModel ''models/yoshikage_kira/scene.gltf'',
      reticleSceneObj = 0, arHitTestSource = None, selectListener = False\<rparr>"
  by (simp add: main_index_def emptyState_def createModelSceneObject_def
      createModelSceneObjectFromQuats_def addSceneObjectToScene_def Let_def)

lemma startedSession_state:
  "startedSession =
     \<lparr>store = [\<lparr>so_model = GLModel ''models/reticle/reticle.gltf'', so_position = Vec3 0 0 0,
                so_rotation = Quat 0 0 0 1, so_scale = Vec3 1 1 1\<rparr>],
      sceneObjects = [0], model = GLModel ''models/yoshikage_kira/scene.gltf'',
      reticleSceneObj = 0, arHitTestSource = Some XRHitTestSource, selectListener = True\<rparr>"
  by (simp add: startedSession_def main_index_state startARSession_def isARSupported_def
      exampleFramework_def)

text \<open>
  C4. On a frame whose hit-test query is made (there is a viewer pose and a hit-test
  source) and returns at least one result whose pose resolves, \<^const>\<open>onDrawFrame\<close> writes
  the pose of the reticle once, one position and one rotation: the position and the
  orientation of the transform of the first result. On a frame with no hit-test result the
  state is the one before the frame and no pose is written.
\<close>

theorem hit_updates_reticle_once:
  "(viewerPose frame = Some views \<and> arHitTestSource s = Some src
      \<and> hitTestResults frame = Some p # rest \<and> reticleSceneObj s < length (store s) \<longrightarrow>
      getPosition (reticleSceneObj s) (fst (onDrawFrame frame s)) = hitLocationPosition p \<and>
      getRotation (reticleSceneObj s) (fst (onDrawFrame frame s)) = hitLocationOrientation p \<and>
      filter isPoseWrite (snd (onDrawFrame frame s)) =
        [SetPosition (hitLocationPosition p), SetRotation (hitLocationOrientation p)])
   \<and> (hitTestResults frame = [] \<longrightarrow>
        fst (onDrawFrame frame s) = s \<and> filter isPoseWrite (snd (onDrawFrame frame s)) = [])"
proof (intro conjI impI)
  assume h: "viewerPose frame = Some views \<and> arHitTestSource s = Some src
      \<and> hitTestResults frame = Some p # rest \<and> reticleSceneObj s < length (store s)"
  then have c: "checkForHitResults frame s =
     (setRotation (reticleSceneObj s) (hitLocationOrientation p)
        (setPosition (reticleSceneObj s) (hitLocationPosition p) s),
      [GetHitTestResults, GetPose,
       SetPosition (hitLocationPosition p), SetRotation (hitLocationOrientation p)])"
    using checkForHitResults_resolved by blast
  from h c show "getPosition (reticleSceneObj s) (fst (onDrawFrame frame s)) = hitLocationPosition p"
    by (simp add: onDrawFrame_state get_after_set)
  from h c show "getRotation (reticleSceneObj s) (fst (onDrawFrame frame s)) = hitLocationOrientation p"
    by (simp add: onDrawFrame_state get_after_set)
  from h c show "filter isPoseWrite (snd (onDrawFrame frame s)) =
        [SetPosition (hitLocationPosition p), SetRotation (hitLocationOrientation p)]"
    by (simp add: onDrawFrame_pose_writes)
next
  assume "hitTestResults frame = []"
  then show "fst (onDrawFrame frame s) = s"
    by (simp add: onDrawFrame_state checkForHitResults_unchanged split: option.splits)
next
  assume "hitTestResults frame = []"
  then show "filter isPoseWrite (snd (onDrawFrame frame s)) = []"
    by (simp add: onDrawFrame_pose_writes checkForHitResults_unchanged split: option.splits)
qed

theorem hit_updates_reticle_once_witness:
  "viewerPose frameWithHit = Some [exampleView]
   \<and> arHitTestSource startedSession = Some XRHitTestSource
   \<and> hitTestResults frameWithHit = Some exampleHitPose # []
   \<and> reticleSceneObj startedSession < length (store startedSession)
   \<and> getPosition (reticleSceneObj startedSession) (fst (onDrawFrame frameWithHit startedSession))
       = Vec3 1 2 3
   \<and> getRotation (reticleSceneObj startedSession) (fst (onDrawFrame frameWithHit startedSession))
       = Quat 0 1 0 0
   \<and> filter isPoseWrite (snd (onDrawFrame frameWithHit startedSession))
       = [SetPosition (Vec3 1 2 3), SetRotation (Quat 0 1 0 0)]
   \<and> hitTestResults frameWithoutHit = []
   \<and> fst (onDrawFrame frameWithoutHit startedSession) = startedSession
   \<and> filter isPoseWrite (snd (onDrawFrame frameWithoutHit startedSession)) = []"
proof -
  have h: "viewerPose frameWithHit = Some [exampleView]"
    "arHitTestSource startedSession = Some XRHitTestSource"
    "hitTestResults frameWithHit = Some exampleHitPose # []"
    "reticleSceneObj startedSession < length (store startedSession)"
    "hitTestResults frameWithoutHit = []"
    by (simp_all add: frameWithHit_def frameWithoutHit_def startedSession_state)
  have p: "hitLocationPosition exampleHitPose = Vec3 1 2 3"
    "hitLocationOrientation exampleHitPose = Quat 0 1 0 0"
    by (simp_all add: exampleHitPose_def)
  from hit_updates_reticle_once
         [of frameWithHit "[exampleView]" startedSession XRHitTestSource exampleHitPose "[]"]
       hit_updates_reticle_once [of frameWithoutHit _ startedSession]
       h p
  show ?thesis by simp
qed

text \<open>
  C10. On a frame whose hit-test result list is not empty but whose first result has no
  pose (\<^verbatim>\<open>getPose\<close> returns null), the state after \<^verbatim>\<open>onDrawFrame\<close> is the state before it
  and no pose is written, in index.ts and in the hit-test program alike.
\<close>

theorem unresolved_hit_keeps_pose:
  assumes "hitTestResults frame = None # rest"
  shows "fst (onDrawFrame frame s) = s \<and> filter isPoseWrite (snd (onDrawFrame frame s)) = []
     \<and> fst (onDrawFrame_hitTest frame s) = s
     \<and> filter isPoseWrite (snd (onDrawFrame_hitTest frame s)) = []"
  using assms
  by (simp add: onDrawFrame_state onDrawFrame_pose_writes onDrawFrame_hitTest_state
      onDrawFrame_hitTest_pose_writes checkForHitResults_unchanged split: option.splits)

theorem unresolved_hit_keeps_pose_witness:
  "hitTestResults frameWithUnresolvedHit = None # [Some exampleHitPose]
   \<and> fst (onDrawFrame frameWithUnresolvedHit startedSession) = startedSession
   \<and> filter isPoseWrite (snd (onDrawFrame frameWithUnresolvedHit startedSession)) = []
   \<and> fst (onDrawFrame_hitTest frameWithUnresolvedHit startedSession) = startedSession
   \<and> filter isPoseWrite (snd (onDrawFrame_hitTest frameWithUnresolvedHit startedSession)) = []"
proof -
  have h: "hitTestResults frameWithUnresolvedHit = None # [Some exampleHitPose]"
    by (simp add: frameWithUnresolvedHit_def)
  from unresolved_hit_keeps_pose [OF h, of startedSession] h show ?thesis
    by simp
qed

section \<open>The frame loop\<close>

text \<open>
  C7. The first call of every frame callback is the request of the next animation frame,
  in index.ts and in the depth-sensing program. When the frame has no viewer pose, that
  request and the query of the pose are all the callback does: the state is unchanged and
  the trace has no clear and no draw.
\<close>

theorem onDrawFrame_rearms_first:
  "(\<exists>rest. snd (onDrawFrame frame s) = RequestAnimationFrame # rest)
   \<and> (\<exists>rest. onDrawFrame_depth frame = RequestAnimationFrame # rest)
   \<and> (viewerPose frame = None \<longrightarrow>
        onDrawFrame frame s = (s, [RequestAnimationFrame, GetViewerPose])
        \<and> onDrawFrame_depth frame = [RequestAnimationFrame, GetViewerPose]
        \<and> Clear \<notin> set (snd (onDrawFrame frame s)) \<and> Clear \<notin> set (onDrawFrame_depth frame)
        \<and> (\<forall>first n. DrawArrays first n \<notin> set (onDrawFrame_depth frame))
        \<and> (\<forall>r. RenderSceneObject r \<notin> set (snd (onDrawFrame frame s))))"
  by (simp add: onDrawFrame_def onDrawFrame_depth_def split: option.splits prod.splits)

theorem onDrawFrame_rearms_first_witness:
  "viewerPose frameWithoutPose = None
   \<and> onDrawFrame frameWithoutPose startedSession
       = (startedSession, [RequestAnimationFrame, GetViewerPose])
   \<and> onDrawFrame_depth frameWithoutPose = [RequestAnimationFrame, GetViewerPose]"
proof -
  have h: "viewerPose frameWithoutPose = None"
    by (simp add: frameWithoutPose_def)
  from onDrawFrame_rearms_first [of frameWithoutPose startedSession] h show ?thesis
    by simp
qed

section \<open>Placing objects\<close>

lemma onSelect_state:
  "onSelect fw s =
     s\<lparr>store := store s @
          [\<lparr>so_model = model s, so_position = getPosition (reticleSceneObj s) s,
            so_rotation = quat_rotate fw (Vec3 (- 90) 0 0) (getRotation (reticleSceneObj s) s),
            so_scale = Vec3 0.5 0.5 0.5\<rparr>],
       sceneObjects := sceneObjects s @ [length (store s)]\<rparr>"
  by (simp add: onSelect_def createModelSceneObjectFromQuats_def rotate_def
      addSceneObjectToScene_def Let_def)

text \<open>The references stay inside the store: the invariant holds after \<^verbatim>\<open>main\<close> and every
  callback keeps it, so it holds whenever a callback runs.\<close>

lemma storeInv_main_index: "storeInv (main_index fw)"
  by (simp add: storeInv_def main_index_state)

lemma storeInv_startARSession: "storeInv s \<Longrightarrow> storeInv (fst (startARSession nav s))"
  by (simp add: storeInv_def startARSession_def Let_def)

lemma storeInv_onSelect: "storeInv s \<Longrightarrow> storeInv (onSelect fw s)"
  by (auto simp add: storeInv_def onSelect_state)

lemma storeInv_checkForHitResults: "storeInv s \<Longrightarrow> storeInv (fst (checkForHitResults frame s))"
  by (simp add: storeInv_def checkForHitResults_def setPosition_def setRotation_def Let_def
      split: option.splits)

lemma storeInv_dispatch: "storeInv s \<Longrightarrow> storeInv (dispatch fw e s)"
  by (cases e)
     (simp_all add: storeInv_onSelect onDrawFrame_state storeInv_checkForHitResults
        split: option.splits)

lemma storeInv_run: "storeInv s \<Longrightarrow> storeInv (run fw es s)"
  by (induction es arbitrary: s) (simp_all add: storeInv_dispatch)

lemma storeInv_session:
  "storeInv (run fw es (fst (startARSession nav (main_index fw))))"
  by (intro storeInv_run storeInv_startARSession storeInv_main_index)

text \<open>
  C5. From a state whose reticle and scene objects are in the store, two runs of
  \<^const>\<open>onSelect\<close> in a row append two references to the scene. The two are different,
  new (neither was in the scene, neither is the reticle) and hold equal objects: the
  position of the reticle, its rotation rotated by \<^verbatim>\<open>(-90, 0, 0)\<close>, and the scale
  \<^verbatim>\<open>(0.5, 0.5, 0.5)\<close>. Every object that was in the store, the reticle among them, is as
  it was.
\<close>

theorem two_selects_copy_pose:
  assumes "storeInv s"
  shows "let s2 = onSelect fw (onSelect fw s); a = length (store s); b = Suc (length (store s))
         in sceneObjects s2 = sceneObjects s @ [a, b]
            \<and> a \<noteq> b \<and> a \<notin> set (sceneObjects s) \<and> b \<notin> set (sceneObjects s)
            \<and> a \<noteq> reticleSceneObj s \<and> b \<noteq> reticleSceneObj s
            \<and> length (store s2) = length (store s) + 2
            \<and> store s2 ! a = store s2 ! b
            \<and> so_position (store s2 ! a) = getPosition (reticleSceneObj s) s
            \<and> so_rotation (store s2 ! a) =
                quat_rotate fw (Vec3 (- 90) 0 0) (getRotation (reticleSceneObj s) s)
            \<and> so_scale (store s2 ! a) = Vec3 0.5 0.5 0.5
            \<and> reticleSceneObj s2 = reticleSceneObj s
            \<and> getPosition (reticleSceneObj s2) s2 = getPosition (reticleSceneObj s) s
            \<and> getRotation (reticleSceneObj s2) s2 = getRotation (reticleSceneObj s) s
            \<and> take (length (store s)) (store s2) = store s"
  using assms
  by (auto simp add: storeInv_def onSelect_state Let_def getPosition_def getRotation_def
      nth_append)

theorem two_selects_copy_pose_witness:
  "storeInv startedSession
   \<and> sceneObjects (onSelect exampleFramework (onSelect exampleFramework startedSession)) = [0, 1, 2]
   \<and> store (onSelect exampleFramework (onSelect exampleFramework startedSession)) ! 1
       = store (onSelect exampleFramework (onSelect exampleFramework startedSession)) ! 2
   \<and> getPosition 0 (onSelect exampleFramework (onSelect exampleFramework startedSession))
       = getPosition 0 startedSession"
proof -
  have h: "storeInv startedSession"
    by (simp add: storeInv_def startedSession_state)
  have v: "length (store startedSession) = 1" "sceneObjects startedSession = [0]"
    "reticleSceneObj startedSession = 0"
    by (simp_all add: startedSession_state)
  from two_selects_copy_pose [OF h, of exampleFramework] h v show ?thesis
    by (auto simp add: Let_def numeral_2_eq_2)
qed

text \<open>
  C6 (as amended). A \<^verbatim>\<open>select\<close> event is acted upon exactly when the \<^verbatim>\<open>select\<close>
  listener is registered, and \<^const>\<open>startARSession\<close> registers it when AR is supported and
  the session has \<^verbatim>\<open>requestHitTestSource\<close>. The handler does not ask whether a hit was
  ever observed: every handled \<^verbatim>\<open>select\<close> adds one new scene object at the position the
  reticle has at that moment.
\<close>

theorem select_guarded_by_listener_only:
  "(selectListener s \<longrightarrow>
      sceneObjects (dispatch fw Select s) = sceneObjects s @ [length (store s)]
      \<and> so_position (store (dispatch fw Select s) ! length (store s))
          = getPosition (reticleSceneObj s) s)
   \<and> (\<not> selectListener s \<longrightarrow> dispatch fw Select s = s)
   \<and> (selectListener (fst (startARSession nav s)) =
        (selectListener s \<or>
         (\<exists>xr. nav = Some xr \<and> isSessionSupported_immersive_ar xr \<and> has_requestHitTestSource xr)))"
  by (auto simp add: onSelect_state startARSession_def isARSupported_def Let_def
      split: option.splits)

theorem select_guarded_by_listener_only_witness:
  "selectListener startedSession
   \<and> sceneObjects (dispatch exampleFramework Select startedSession) = [0, 1]
   \<and> \<not> selectListener (main_index exampleFramework)
   \<and> dispatch exampleFramework Select (main_index exampleFramework) = main_index exampleFramework"
proof -
  have h: "selectListener startedSession" "\<not> selectListener (main_index exampleFramework)"
    by (simp_all add: startedSession_state main_index_state)
  have v: "length (store startedSession) = 1" "sceneObjects startedSession = [0]"
    by (simp_all add: startedSession_state)
  from select_guarded_by_listener_only [of startedSession exampleFramework]
       select_guarded_by_listener_only [of "main_index exampleFramework" exampleFramework]
       h v
  show ?thesis by simp
qed

text \<open>
  C6 as stated fails: in a session that has just started, where no frame has been handled
  and so no hit-test result has ever been observed, a \<^verbatim>\<open>select\<close> event is handled and
  adds a scene object, at the origin, where \<^verbatim>\<open>main\<close> put the reticle.
\<close>

theorem select_before_any_hit_counterexample:
  "sceneObjects startedSession = [0]
   \<and> sceneObjects (run exampleFramework [Select] startedSession) = [0, 1]
   \<and> so_position (store (run exampleFramework [Select] startedSession) ! 1) = Vec3 0 0 0"
  by (simp add: startedSession_state onSelect_state getPosition_def getRotation_def)

section \<open>The depth visualisation, end to end\<close>

lemma depthGetMeters_fl_texture:
  "texture t uv = texture t' uv' \<Longrightarrow>
   depthGetMeters_fl G U t uv = depthGetMeters_fl G U t' uv'"
  by (simp add: depthGetMeters_fl_def)

lemma main_fl_two_meters:
  assumes "rnd G 0 = 0" "rnd G 1 = 1" "rnd G 2 = 2" "rnd G 8 = 8" "rnd G (1 / 4) = 1 / 4"
    and "\<And>uv. depthGetMeters_fl G U (depthTexture U) uv = 2"
  shows "main_fl G U fragCoord = Vec4 (1 / 4) (1 / 4) (1 / 4) 1"
proof -
  have "mapRange_fl G (clamp 2 0.0 kMaxDepth) 0.0 kMaxDepth 0.0 1.0 = rnd G (rnd G (1 / 4))"
    using assms(1-4)
    by (simp add: mapRange_fl_def fadd_def fsub_def fmul_def fdiv_def clamp_def kMaxDepth_def)
  then have "mapRange_fl G (clamp 2 0.0 kMaxDepth) 0.0 kMaxDepth 0.0 1.0 = 1 / 4"
    unfolding assms(5) .
  then show ?thesis
    unfolding main_fl_def Let_def assms(6) by simp
qed

lemma drawn_one_view:
  assumes "viewerPose frame = Some [view]" and "depthInformation view = Some di"
  shows "drawn smp (onDrawFrame_depth frame) U0 = [snapshotUniforms smp view di]"
  using assms
  by (simp add: onDrawFrame_depth_def depthSensing_def setViewPort_def snapshotUniforms_def)

text \<open>
  C8. Take a frame with a viewer pose of one view and a depth snapshot for it. The frame
  callback of the depth-sensing program issues one draw, with the uniforms taken from the
  snapshot. If every sample of the uploaded snapshot is the texel of one of its pixels and
  every pixel decodes to 2.0 meters, then for every fragment coordinate the shader writes
  the colour \<open>(2.0 / 8.0, 2.0 / 8.0, 2.0 / 8.0, 1)\<close>, which is 0.25 in the three colour
  channels. This holds of the shader with its rounding, on every GPU whose rounding leaves
  the floats 0, 1, 2, 8 and \<open>1 / 4\<close> as they are, a pixel decoding to 2.0 when the rounded
  decoder returns 2.0 for its two bytes and the scale of the snapshot; and it holds of the
  shader without rounding, a pixel decoding to 2.0 when
  \<open>(low + high * 256) * rawValueToMeters = 2.0\<close>.
\<close>

theorem constant_depth_visualised:
  assumes "viewerPose frame = Some [view]" and "depthInformation view = Some di"
  shows "drawn smp (onDrawFrame_depth frame) U0 = [snapshotUniforms smp view di]
     \<and> (rnd G 0 = 0 \<and> rnd G 1 = 1 \<and> rnd G 2 = 2 \<and> rnd G 8 = 8 \<and> rnd G (1 / 4) = 1 / 4
         \<and> (\<forall>uv. \<exists>i < di_width di * di_height di.
               texture (depthTexture (snapshotUniforms smp view di)) uv
                 = pixelTexel_fl G (di_data di) i)
         \<and> (\<forall>i < di_width di * di_height di.
               depthGetMeters_fl G (snapshotUniforms smp view di)
                 (\<lambda>uv. pixelTexel_fl G (di_data di) i) (Vec2 0 0) = 2.0)
         \<longrightarrow> (\<forall>fragCoord. main_fl G (snapshotUniforms smp view di) fragCoord
                  = Vec4 (2.0 / 8.0) (2.0 / 8.0) (2.0 / 8.0) 1))
     \<and> ((\<forall>uv. \<exists>i < di_width di * di_height di.
               texture (depthTexture (snapshotUniforms smp view di)) uv = pixelTexel (di_data di) i)
         \<and> (\<forall>i < di_width di * di_height di.
               (real (unat (di_data di ! (2 * i))) + real (unat (di_data di ! (2 * i + 1))) * 256)
                 * rawValueToMeters di = 2.0)
         \<longrightarrow> (\<forall>fragCoord. main (snapshotUniforms smp view di) fragCoord
                  = Vec4 (2.0 / 8.0) (2.0 / 8.0) (2.0 / 8.0) 1))
     \<and> (2.0 / 8.0 :: real) = 0.25"
proof (intro conjI impI allI)
  show "drawn smp (onDrawFrame_depth frame) U0 = [snapshotUniforms smp view di]"
    by (rule drawn_one_view [OF assms])
next
  fix fragCoord
  let ?U = "snapshotUniforms smp view di"
  assume h: "rnd G 0 = 0 \<and> rnd G 1 = 1 \<and> rnd G 2 = 2 \<and> rnd G 8 = 8 \<and> rnd G (1 / 4) = 1 / 4
         \<and> (\<forall>uv. \<exists>i < di_width di * di_height di.
               texture (depthTexture ?U) uv = pixelTexel_fl G (di_data di) i)
         \<and> (\<forall>i < di_width di * di_height di.
               depthGetMeters_fl G ?U (\<lambda>uv. pixelTexel_fl G (di_data di) i) (Vec2 0 0) = 2.0)"
  have "depthGetMeters_fl G ?U (depthTexture ?U) uv = 2" for uv
  proof -
    from h obtain i where i: "i < di_width di * di_height di"
      "texture (depthTexture ?U) uv = pixelTexel_fl G (di_data di) i" by blast
    have "texture (depthTexture ?U) uv = texture (\<lambda>uv. pixelTexel_fl G (di_data di) i) (Vec2 0 0)"
      unfolding i(2) by (simp add: texture_def)
    then have "depthGetMeters_fl G ?U (depthTexture ?U) uv
        = depthGetMeters_fl G ?U (\<lambda>uv. pixelTexel_fl G (di_data di) i) (Vec2 0 0)"
      by (rule depthGetMeters_fl_texture)
    with h i(1) show ?thesis by simp
  qed
  with h have "main_fl G ?U fragCoord = Vec4 (1 / 4) (1 / 4) (1 / 4) 1"
    by (intro main_fl_two_meters) simp_all
  then show "main_fl G ?U fragCoord = Vec4 (2.0 / 8.0) (2.0 / 8.0) (2.0 / 8.0) 1" by simp
next
  fix fragCoord
  let ?U = "snapshotUniforms smp view di"
  assume h: "(\<forall>uv. \<exists>i < di_width di * di_height di.
               texture (depthTexture ?U) uv = pixelTexel (di_data di) i)
         \<and> (\<forall>i < di_width di * di_height di.
               (real (unat (di_data di ! (2 * i))) + real (unat (di_data di ! (2 * i + 1))) * 256)
                 * rawValueToMeters di = 2.0)"
  have "depthGetMeters ?U (depthTexture ?U) uv = 2" for uv
  proof -
    from h obtain i where i: "i < di_width di * di_height di"
      "texture (depthTexture ?U) uv = pixelTexel (di_data di) i" by blast
    have "depthGetMeters ?U (depthTexture ?U) uv =
        real (unat (di_data di ! (2 * i)) + unat (di_data di ! (2 * i + 1)) * 256) * depthScale ?U"
      using i(2) unfolding pixelTexel_def by (rule depthGetMeters_texel)
    moreover have "depthScale ?U = rawValueToMeters di" by (simp add: snapshotUniforms_def)
    ultimately show ?thesis using h i(1) by simp
  qed
  then show "main ?U fragCoord = Vec4 (2.0 / 8.0) (2.0 / 8.0) (2.0 / 8.0) 1"
    by (simp add: main_def Let_def mapRange_def clamp_def kMaxDepth_def)
next
  show "(2.0 / 8.0 :: real) = 0.25" by simp
qed

text \<open>The theorem at the snapshot with the bytes \<open>(0, 1)\<close> and the scale \<open>1 / 128\<close>, which
  \<^const>\<open>gpu32\<close> decodes to 2.0 without any loss.\<close>

theorem constant_depth_visualised_witness:
  "viewerPose binaryFrame = Some [binaryView]
   \<and> depthInformation binaryView = Some binaryDepth
   \<and> di_width binaryDepth * di_height binaryDepth = 1
   \<and> rnd gpu32 0 = 0 \<and> rnd gpu32 1 = 1 \<and> rnd gpu32 2 = 2 \<and> rnd gpu32 8 = 8
   \<and> rnd gpu32 (1 / 4) = 1 / 4
   \<and> depthGetMeters_fl gpu32 (snapshotUniforms gpu32Sampling binaryView binaryDepth)
        (\<lambda>uv. pixelTexel_fl gpu32 (di_data binaryDepth) 0) (Vec2 0 0) = 2
   \<and> (real (unat (di_data binaryDepth ! 0)) + real (unat (di_data binaryDepth ! 1)) * 256)
        * rawValueToMeters binaryDepth = 2
   \<and> drawn gpu32Sampling (onDrawFrame_depth binaryFrame) exampleUniforms
       = [snapshotUniforms gpu32Sampling binaryView binaryDepth]
   \<and> main_fl gpu32 (snapshotUniforms gpu32Sampling binaryView binaryDepth) (Vec2 0.5 0.5)
       = Vec4 (1 / 4) (1 / 4) (1 / 4) 1
   \<and> main (snapshotUniforms exampleSampling binaryView binaryDepth) (Vec2 0.5 0.5)
       = Vec4 (1 / 4) (1 / 4) (1 / 4) 1"
proof -
  let ?U = "snapshotUniforms gpu32Sampling binaryView binaryDepth"
  let ?V = "snapshotUniforms exampleSampling binaryView binaryDepth"
  have h1: "viewerPose binaryFrame = Some [binaryView]"
    and h2: "depthInformation binaryView = Some binaryDepth"
    and n: "di_width binaryDepth * di_height binaryDepth = 1"
    by (simp_all add: binaryFrame_def binaryView_def binaryDepth_def)
  have r: "rnd gpu32 0 = 0" "rnd gpu32 1 = 1" "rnd gpu32 2 = 2" "rnd gpu32 8 = 8"
    "rnd gpu32 (1 / 4) = 1 / 4"
    by (simp_all add: gpu32_def fl32_0 fl32_1 fl32_2 fl32_8 fl32_1_over_4)
  have p: "pixelTexel_fl gpu32 (di_data binaryDepth) 0 = luminanceAlphaTexel_fl gpu32 0 1"
    "pixelTexel (di_data binaryDepth) 0 = luminanceAlphaTexel 0 1"
    by (simp_all add: pixelTexel_fl_def pixelTexel_def binaryDepth_def)
  have sc: "depthScale ?U = 1 / 128"
    by (simp add: snapshotUniforms_def binaryDepth_def)
  have d: "depthGetMeters_fl gpu32 ?U (\<lambda>uv. pixelTexel_fl gpu32 (di_data binaryDepth) 0) (Vec2 0 0) = 2"
    unfolding p depthGetMeters_gpu32 sc
    by (simp add: gpu32_unorm8 fl32_0 fl32_high1 fl32_256 fl32_2)
  have b: "(real (unat (di_data binaryDepth ! 0)) + real (unat (di_data binaryDepth ! 1)) * 256)
        * rawValueToMeters binaryDepth = 2"
    by (simp add: binaryDepth_def)
  have s1: "\<forall>uv. \<exists>i < di_width binaryDepth * di_height binaryDepth.
      texture (depthTexture ?U) uv = pixelTexel_fl gpu32 (di_data binaryDepth) i"
    unfolding n p(1) [symmetric]
    by (simp add: texture_def snapshotUniforms_def gpu32Sampling_def pixelTexel_fl_def
        binaryDepth_def)
  have s2: "\<forall>uv. \<exists>i < di_width binaryDepth * di_height binaryDepth.
      texture (depthTexture ?V) uv = pixelTexel (di_data binaryDepth) i"
    unfolding n
    by (simp add: texture_def snapshotUniforms_def exampleSampling_def pixelTexel_def
        binaryDepth_def)
  have d1: "\<forall>i < di_width binaryDepth * di_height binaryDepth.
      depthGetMeters_fl gpu32 ?U (\<lambda>uv. pixelTexel_fl gpu32 (di_data binaryDepth) i) (Vec2 0 0) = 2.0"
    unfolding n using d by simp
  have d2: "\<forall>i < di_width binaryDepth * di_height binaryDepth.
      (real (unat (di_data binaryDepth ! (2 * i))) + real (unat (di_data binaryDepth ! (2 * i + 1))) * 256)
        * rawValueToMeters binaryDepth = 2.0"
    unfolding n using b by simp
  note w1 = constant_depth_visualised [OF h1 h2, of gpu32Sampling exampleUniforms gpu32]
  note w2 = constant_depth_visualised [OF h1 h2, of exampleSampling exampleUniforms gpu32]
  have c0: "drawn gpu32Sampling (onDrawFrame_depth binaryFrame) exampleUniforms = [?U]"
    using w1 by blast
  have "main_fl gpu32 ?U (Vec2 0.5 0.5) = Vec4 (2.0 / 8.0) (2.0 / 8.0) (2.0 / 8.0) 1"
    using w1 r s1 d1 by blast
  then have c1: "main_fl gpu32 ?U (Vec2 0.5 0.5) = Vec4 (1 / 4) (1 / 4) (1 / 4) 1" by simp
  have "main ?V (Vec2 0.5 0.5) = Vec4 (2.0 / 8.0) (2.0 / 8.0) (2.0 / 8.0) 1"
    using w2 s2 d2 by blast
  then have c2: "main ?V (Vec2 0.5 0.5) = Vec4 (1 / 4) (1 / 4) (1 / 4) 1" by simp
  from h1 h2 n r d b c0 c1 c2 show ?thesis by (intro conjI)
qed

end
